theory Spec2Isabelle
  imports Complex_Main
begin

section \<open>Level Engine\<close>

text \<open>
  The Quiz component's \<^verbatim>\<open>calculateNewLevel(currentLevel, score, emotion)\<close>. Levels and
  scores are the integers the component computes (\<^verbatim>\<open>calculateScore\<close> ends in
  \<^verbatim>\<open>Math.round\<close>); the emotion is the string the \<^verbatim>\<open>switch\<close> compares, and a
  string that matches no \<^verbatim>\<open>case\<close> leaves \<^verbatim>\<open>levelChange\<close> as it is.
\<close>

definition calculateNewLevel :: "int \<Rightarrow> int \<Rightarrow> string \<Rightarrow> int" where
  "calculateNewLevel currentLevel score emotion =
     (let levelChange = (0::int);
          levelChange = (if score \<ge> 80 then levelChange + 2
                         else if score < 50 then levelChange - 1
                         else levelChange);
          levelChange = (if emotion = ''happy'' then levelChange + 1
                         else if emotion = ''sad'' then levelChange - 1
                         else if emotion = ''angry'' then levelChange - 1
                         else if emotion = ''confused'' then levelChange - 1
                         else if emotion = ''excited'' then levelChange + 1
                         else levelChange);
          newLevel = max 1 (min 10 (currentLevel + levelChange))
      in newLevel)"

text \<open>The contract of the specification, written from its words.\<close>

definition emotionEnum :: "string set" where
  "emotionEnum = {''happy'', ''sad'', ''angry'', ''neutral'', ''confused'', ''excited''}"

definition scoreDelta :: "int \<Rightarrow> int" where
  "scoreDelta score = (if score \<ge> 80 then 2 else if score < 50 then -1 else 0)"

definition emotionDelta :: "string \<Rightarrow> int" where
  "emotionDelta emotion =
     (if emotion \<in> {''happy'', ''excited''} then 1
      else if emotion \<in> {''sad'', ''angry'', ''confused''} then -1
      else 0)"

definition clamp :: "int \<Rightarrow> int \<Rightarrow> int \<Rightarrow> int" where
  "clamp lo hi x = (if x < lo then lo else if hi < x then hi else x)"

section \<open>Performance score transform\<close>

text \<open>
  The Performance component's \<^verbatim>\<open>calculatePerformanceScore(level, score)\<close>. The last
  branch multiplies by \<^verbatim>\<open>0.5\<close>, so the result is a real number.
\<close>

definition calculatePerformanceScore :: "int \<Rightarrow> int \<Rightarrow> real" where
  "calculatePerformanceScore level score =
     (if level \<ge> 8 then (if score < 50 then 75 else of_int score)
      else if level \<ge> 5 then of_int score
      else (if score \<ge> 80 then 40 else of_int score * 0.5))"

section \<open>Quiz Session Controller\<close>

text \<open>
  The state of the Quiz component that the submission and the results screen read and
  write, as \<^verbatim>\<open>useState\<close> holds it. \<^verbatim>\<open>score\<close> is \<^verbatim>\<open>null\<close> until a quiz is submitted.
  One field stands for an effect outside the component: \<^verbatim>\<open>savedResults\<close> collects the
  bodies posted to the quiz-results endpoint.
\<close>

record quiz_attempt =
  attempt_score :: int
  attempt_emotion :: string
  attempt_presentLevel :: int
  attempt_nextLevel :: int

record quiz_state =
  score :: "int option"
  selectedEmotion :: string
  emotionDetections :: "string list"
  detectedEmotion :: "string option"
  currentLevel :: int
  presentLevel :: int
  nextLevel :: int
  consecutiveFailures :: nat
  showResults :: bool
  error :: bool
  savedResults :: "quiz_attempt list"

text \<open>
  The initial values of the hooks, with the level at which the first quiz was fetched
  (\<^verbatim>\<open>quizLevel\<close> in \<^verbatim>\<open>fetchQuiz\<close>, 5 unless the navigation state or saved progress
  names another).
\<close>

definition freshSession :: "int \<Rightarrow> quiz_state" where
  "freshSession quizLevel =
     \<lparr>score = None, selectedEmotion = ''neutral'', emotionDetections = [],
      detectedEmotion = None, currentLevel = quizLevel, presentLevel = 5, nextLevel = 5,
      consecutiveFailures = 0, showResults = False, error = False, savedResults = []\<rparr>"

text \<open>\<^verbatim>\<open>String.prototype.toLowerCase\<close> on the ASCII letters.\<close>

definition toLowerChar :: "char \<Rightarrow> char" where
  "toLowerChar c =
     (let n = (of_char c :: nat) in if 65 \<le> n \<and> n \<le> 90 then char_of (n + 32) else c)"

definition toLowerCase :: "string \<Rightarrow> string" where
  "toLowerCase s = map toLowerChar s"

text \<open>
  The capture interval's success branch: a response that carries an emotion appends its
  lower-cased form to \<^verbatim>\<open>emotionDetections\<close> and makes it the selected emotion.
\<close>

definition onEmotionDetected :: "string \<Rightarrow> quiz_state \<Rightarrow> quiz_state" where
  "onEmotionDetected emotion s =
     (let lowercaseEmotion = toLowerCase emotion
      in s\<lparr>emotionDetections := emotionDetections s @ [lowercaseEmotion],
            detectedEmotion := Some lowercaseEmotion,
            selectedEmotion := lowercaseEmotion,
            error := False\<rparr>)"

text \<open>
  \<^verbatim>\<open>getMostFrequentEmotion\<close>. The object \<^verbatim>\<open>freq\<close> is an association list in insertion
  order, the order in which \<^verbatim>\<open>Object.entries\<close> lists keys that are not array indices.
  The model is meant for readings that are neither array indices (which a JavaScript
  object lists first) nor names of properties every object inherits (such as
  \<^verbatim>\<open>constructor\<close>, for which \<^verbatim>\<open>freq[e]\<close> is not a count); the lower-cased emotion
  names and sentinels are of that kind.
\<close>

definition countedReading :: "string \<Rightarrow> bool" where
  "countedReading e \<longleftrightarrow>
     e \<noteq> [] \<and> e \<noteq> ''No Face Detected'' \<and> e \<noteq> ''Landmark Error'' \<and>
     e \<noteq> ''Coord Count Error'' \<and> e \<noteq> ''Prediction Error''"

fun increment :: "string \<Rightarrow> (string \<times> nat) list \<Rightarrow> (string \<times> nat) list" where
  "increment e [] = [(e, 1)]"
| "increment e ((k, n) # freq) =
     (if k = e then (k, n + 1) # freq else (k, n) # increment e freq)"

definition freqTable :: "string list \<Rightarrow> (string \<times> nat) list" where
  "freqTable emotions =
     foldl (\<lambda>freq e. if countedReading e then increment e freq else freq) [] emotions"

definition getMostFrequentEmotion :: "string list \<Rightarrow> string" where
  "getMostFrequentEmotion emotions =
     (if emotions = [] then ''neutral''
      else snd (foldl (\<lambda>(mx, result) (emotion, count).
                         if count > mx then (count, emotion) else (mx, result))
                      (0, ''neutral'') (freqTable emotions)))"

text \<open>
  \<^verbatim>\<open>handleSubmit\<close>, given the value of \<^verbatim>\<open>calculateScore()\<close> and whether the two POST
  requests went through. The handler reads \<^verbatim>\<open>currentLevel\<close> and \<^verbatim>\<open>selectedEmotion\<close> of
  the render in which the Submit button was drawn. When a request fails the \<^verbatim>\<open>catch\<close>
  block sets the error and the results are not shown.
\<close>

definition handleSubmit :: "int \<Rightarrow> bool \<Rightarrow> quiz_state \<Rightarrow> quiz_state" where
  "handleSubmit calculatedScore posted s =
     (let calculatedNextLevel =
            calculateNewLevel (currentLevel s) calculatedScore (selectedEmotion s);
          s' = s\<lparr>score := Some calculatedScore,
                 presentLevel := currentLevel s,
                 nextLevel := calculatedNextLevel,
                 consecutiveFailures :=
                   (if calculatedScore < 60 then consecutiveFailures s + 1 else 0)\<rparr>
      in if posted
         then s'\<lparr>savedResults := savedResults s @
                    [\<lparr>attempt_score = calculatedScore,
                      attempt_emotion = selectedEmotion s,
                      attempt_presentLevel = currentLevel s,
                      attempt_nextLevel = calculatedNextLevel\<rparr>],
                  showResults := True\<rparr>
         else s'\<lparr>error := True\<rparr>)"

text \<open>
  The effect on \<^verbatim>\<open>[score, emotionDetections]\<close> (``when quiz ends, determine most
  frequent emotion''). It runs after the render that follows \<^verbatim>\<open>setScore\<close>, so
  after \<^verbatim>\<open>handleSubmit\<close> has read \<^verbatim>\<open>selectedEmotion\<close>.
\<close>

definition quizEndEffect :: "quiz_state \<Rightarrow> quiz_state" where
  "quizEndEffect s =
     (if score s \<noteq> None \<and> emotionDetections s \<noteq> []
      then (let mostFrequent = getMostFrequentEmotion (emotionDetections s)
            in s\<lparr>detectedEmotion := Some mostFrequent, selectedEmotion := mostFrequent\<rparr>)
      else s)"

text \<open>
  The effect on \<^verbatim>\<open>[questions, score, loading]\<close> that starts the capture interval. When
  a submission ends and \<^verbatim>\<open>loading\<close> is false again, its condition \<^verbatim>\<open>!score\<close> holds
  for a score of 0 as for \<^verbatim>\<open>null\<close>, and it then empties the readings.
\<close>

definition captureEffect :: "quiz_state \<Rightarrow> quiz_state" where
  "captureEffect s =
     (if score s = None \<or> score s = Some 0
      then s\<lparr>emotionDetections := [], detectedEmotion := None\<rparr>
      else s)"

text \<open>
  The results screen: \<^verbatim>\<open>consecutiveFailures >= 2 && score < 60\<close>. JavaScript compares
  \<^verbatim>\<open>null\<close> as 0.
\<close>

definition showReviewContent :: "quiz_state \<Rightarrow> bool" where
  "showReviewContent s \<longleftrightarrow>
     consecutiveFailures s \<ge> 2 \<and> (case score s of None \<Rightarrow> True | Some x \<Rightarrow> x < 60)"

text \<open>
  Where the browser is. The routes of \<^verbatim>\<open>App.js\<close> mount the Quiz component on the quiz
  page and the PersonalizedContent component on the review page, so \<^verbatim>\<open>navigate\<close> to
  the review page unmounts the Quiz component and its state is gone. What remains is
  the navigation state (of which \<^verbatim>\<open>handleBackToQuiz\<close> reads \<^verbatim>\<open>nextLevel\<close>, when it was
  passed) and the attempts already posted.
\<close>

datatype app = Quiz quiz_state | Review "int option" "quiz_attempt list"

text \<open>
  \<^verbatim>\<open>handleReadContent\<close>, the handler of the Review Content button: it navigates to the
  review page with \<^verbatim>\<open>nextLevel\<close> in the navigation state.
\<close>

definition handleReadContent :: "quiz_state \<Rightarrow> app" where
  "handleReadContent s = Review (Some (nextLevel s)) (savedResults s)"

text \<open>
  \<^verbatim>\<open>handleNextQuiz\<close>, given whether the fetch of the next questions succeeded. Its first
  branch navigates to the review page without \<^verbatim>\<open>nextLevel\<close> in the navigation state.
\<close>

definition handleNextQuiz :: "bool \<Rightarrow> quiz_state \<Rightarrow> app" where
  "handleNextQuiz fetched s =
     (if consecutiveFailures s \<ge> 3
      then Review None (savedResults s)
      else (let s' = s\<lparr>error := False, showResults := False, score := None,
                        emotionDetections := [], detectedEmotion := None,
                        selectedEmotion := ''neutral''\<rparr>
            in if fetched then Quiz (s'\<lparr>currentLevel := nextLevel s\<rparr>)
               else Quiz (s'\<lparr>error := True\<rparr>)))"

text \<open>
  \<^verbatim>\<open>handleBackToQuiz\<close> of the review page: it navigates to the quiz page with the level
  \<^verbatim>\<open>location.state?.nextLevel || 5\<close>, and a new Quiz component mounts with the initial
  values of its hooks and fetches the questions at that level.
\<close>

definition handleBackToQuiz :: "int option \<Rightarrow> quiz_attempt list \<Rightarrow> app" where
  "handleBackToQuiz navNextLevel saved =
     (let lvl = (case navNextLevel of None \<Rightarrow> 5 | Some l \<Rightarrow> if l = 0 then 5 else l)
      in Quiz ((freshSession lvl)\<lparr>savedResults := saved\<rparr>))"

text \<open>
  What the component renders, in the order of its \<^verbatim>\<open>return\<close> statements, and the
  events each screen offers: the quiz screen has the Submit button; the results screen
  shows either the Review Content button or the Take Next Quiz button, never both. An
  answer of the emotion detector may arrive as long as the component is mounted (the
  capture interval runs during the quiz, and a request already sent may still be
  answered later): an answer with an emotion is stored and clears the error message,
  and the effect on \<^verbatim>\<open>[score, emotionDetections]\<close> runs again; any other answer, or none,
  sets the error message. After a submission the two effects run as described above.
\<close>

datatype screen = ErrorScreen | ResultsScreen | QuizScreen

definition screen :: "quiz_state \<Rightarrow> screen" where
  "screen s = (if error s then ErrorScreen else if showResults s then ResultsScreen else QuizScreen)"

datatype event =
  Detect string | DetectFailed | Submit int bool | NextQuiz bool | ReadContent | BackToQuiz

fun step :: "app \<Rightarrow> event \<Rightarrow> app option" where
  "step (Quiz s) (Detect emotion) =
     (if emotion \<noteq> [] then Some (Quiz (quizEndEffect (onEmotionDetected emotion s))) else None)"
| "step (Quiz s) DetectFailed = Some (Quiz (s\<lparr>error := True\<rparr>))"
| "step (Quiz s) (Submit calculatedScore posted) =
     (if screen s = QuizScreen
      then Some (Quiz (captureEffect (quizEndEffect (handleSubmit calculatedScore posted s))))
      else None)"
| "step (Quiz s) (NextQuiz fetched) =
     (if screen s = ResultsScreen \<and> \<not> showReviewContent s
      then Some (handleNextQuiz fetched s) else None)"
| "step (Quiz s) ReadContent =
     (if screen s = ResultsScreen \<and> showReviewContent s
      then Some (handleReadContent s) else None)"
| "step (Quiz s) BackToQuiz = None"
| "step (Review navNextLevel saved) BackToQuiz = Some (handleBackToQuiz navNextLevel saved)"
| "step (Review navNextLevel saved) e = None"

fun run :: "app \<Rightarrow> event list \<Rightarrow> app option" where
  "run a [] = Some a"
| "run a (e # es) = (case step a e of None \<Rightarrow> None | Some a' \<Rightarrow> run a' es)"

text \<open>
  The scores submitted since the Quiz component was mounted: the scores of the
  submissions that follow the last use of the Review Content button.
\<close>

fun scoreOf :: "event \<Rightarrow> int list" where
  "scoreOf (Submit x posted) = [x]"
| "scoreOf e = []"

definition sessionScores :: "event list \<Rightarrow> int list" where
  "sessionScores es =
     concat (map scoreOf (rev (takeWhile (\<lambda>e. e \<noteq> ReadContent) (rev es))))"

text \<open>
  Two notions for reasoning about a session: the number of scores below 60 at the end
  of a list of submitted scores, and what the state records about the events so far.
\<close>

definition failureStreak :: "int list \<Rightarrow> nat" where
  "failureStreak scores = length (takeWhile (\<lambda>x. x < 60) (rev scores))"

fun sessionInv :: "event list \<Rightarrow> app \<Rightarrow> bool" where
  "sessionInv es (Quiz s) \<longleftrightarrow>
     consecutiveFailures s = failureStreak (sessionScores es) \<and>
     (showResults s \<longrightarrow>
        sessionScores es \<noteq> [] \<and> score s = Some (last (sessionScores es)))"
| "sessionInv es (Review navNextLevel saved) \<longleftrightarrow> sessionScores es = []"

section \<open>Quiz fetch: the level of the generated questions\<close>

text \<open>
  The values a JavaScript number takes in the route \<^verbatim>\<open>GET .../quiz\<close>: the results of
  \<^verbatim>\<open>parseInt\<close> and \<^verbatim>\<open>parseFloat\<close> and what \<^verbatim>\<open>+\<close>, \<^verbatim>\<open>-\<close>, \<^verbatim>\<open>Math.min\<close>, \<^verbatim>\<open>Math.max\<close> and
  the comparisons make of them. Finite values are real numbers (rounding of doubles is
  left out); \<^verbatim>\<open>NaN\<close> and the two infinities behave as in IEEE 754.
\<close>

datatype jsnum = NaN | Num real | PosInfinity | NegInfinity

fun isNaN :: "jsnum \<Rightarrow> bool" where
  "isNaN NaN = True"
| "isNaN _ = False"

fun js_plus :: "jsnum \<Rightarrow> real \<Rightarrow> jsnum" where
  "js_plus (Num x) d = Num (x + d)"
| "js_plus v d = v"

fun js_min :: "jsnum \<Rightarrow> real \<Rightarrow> jsnum" where
  "js_min NaN b = NaN"
| "js_min (Num x) b = Num (min x b)"
| "js_min PosInfinity b = Num b"
| "js_min NegInfinity b = NegInfinity"

fun js_max :: "jsnum \<Rightarrow> real \<Rightarrow> jsnum" where
  "js_max NaN b = NaN"
| "js_max (Num x) b = Num (max x b)"
| "js_max PosInfinity b = PosInfinity"
| "js_max NegInfinity b = Num b"

fun js_ge :: "jsnum \<Rightarrow> real \<Rightarrow> bool" where
  "js_ge (Num x) b = (x \<ge> b)"
| "js_ge PosInfinity b = True"
| "js_ge _ b = False"

fun js_lt :: "jsnum \<Rightarrow> real \<Rightarrow> bool" where
  "js_lt (Num x) b = (x < b)"
| "js_lt NegInfinity b = True"
| "js_lt _ b = False"

fun js_gt :: "jsnum \<Rightarrow> real \<Rightarrow> bool" where
  "js_gt (Num x) b = (x > b)"
| "js_gt PosInfinity b = True"
| "js_gt _ b = False"

text \<open>
  The query string of the request. A parameter is absent (\<^verbatim>\<open>undefined\<close>) or a string;
  the empty string is falsy like \<^verbatim>\<open>undefined\<close>.
\<close>

record quiz_query =
  previousScore :: "string option"
  previousEmotion :: "string option"
  previousLevel :: "string option"
  level :: "string option"

definition truthy :: "string option \<Rightarrow> bool" where
  "truthy p = (case p of None \<Rightarrow> False | Some v \<Rightarrow> v \<noteq> [])"

definition param :: "string option \<Rightarrow> string" where
  "param p = (case p of None \<Rightarrow> [] | Some v \<Rightarrow> v)"

text \<open>
  \<^verbatim>\<open>nextLevel\<close> as it stands before the final range check. The built-in parsers
  \<^verbatim>\<open>parseInt\<close> and \<^verbatim>\<open>parseFloat\<close> are parameters, applied only to the strings the route
  passes to them.
\<close>

definition parsedLevel :: "(string \<Rightarrow> jsnum) \<Rightarrow> (string \<Rightarrow> jsnum) \<Rightarrow> quiz_query \<Rightarrow> jsnum" where
  "parsedLevel parseInt parseFloat q =
     (if truthy (level q) then parseInt (param (level q))
      else if truthy (previousScore q) \<and> truthy (previousEmotion q) \<and> truthy (previousLevel q)
      then (let score = parseFloat (param (previousScore q));
                prevLevel = parseInt (param (previousLevel q));
                nextLevel = (if js_ge score 80 then js_min (js_plus prevLevel 1) 10
                             else if js_lt score 50 then js_max (js_plus prevLevel (-1)) 1
                             else prevLevel);
                nextLevel = (if previousEmotion q = Some ''confused'' \<or> previousEmotion q = Some ''sad''
                             then js_max (js_plus nextLevel (-1)) 1
                             else if previousEmotion q = Some ''excited'' \<or> previousEmotion q = Some ''happy''
                             then js_min (js_plus nextLevel 1) 10
                             else nextLevel)
            in nextLevel)
      else Num 5)"

definition quizLevel :: "(string \<Rightarrow> jsnum) \<Rightarrow> (string \<Rightarrow> jsnum) \<Rightarrow> quiz_query \<Rightarrow> jsnum" where
  "quizLevel parseInt parseFloat q =
     (let nextLevel = parsedLevel parseInt parseFloat q
      in if isNaN nextLevel \<or> js_lt nextLevel 1 \<or> js_gt nextLevel 10 then Num 5 else nextLevel)"

text \<open>
  A parser to run the route on examples: on a non-empty string of decimal digits both
  \<^verbatim>\<open>parseInt\<close> and \<^verbatim>\<open>parseFloat\<close> return the number it spells. Other strings are not
  used in the examples below.
\<close>

definition digitValue :: "char \<Rightarrow> nat option" where
  "digitValue c =
     (let n = (of_char c :: nat) in if 48 \<le> n \<and> n \<le> 57 then Some (n - 48) else None)"

fun parseDigitsFrom :: "nat \<Rightarrow> string \<Rightarrow> jsnum" where
  "parseDigitsFrom acc [] = Num (real acc)"
| "parseDigitsFrom acc (c # cs) =
     (case digitValue c of None \<Rightarrow> NaN | Some d \<Rightarrow> parseDigitsFrom (10 * acc + d) cs)"

definition parseDigits :: "string \<Rightarrow> jsnum" where
  "parseDigits s = (if s = [] then NaN else parseDigitsFrom 0 s)"

definition levelQuery :: "string \<Rightarrow> quiz_query" where
  "levelQuery v =
     \<lparr>previousScore = None, previousEmotion = None, previousLevel = None, level = Some v\<rparr>"

definition previousQuery :: "string \<Rightarrow> string \<Rightarrow> string \<Rightarrow> quiz_query" where
  "previousQuery lvl sc em =
     \<lparr>previousScore = Some sc, previousEmotion = Some em, previousLevel = Some lvl, level = None\<rparr>"

section \<open>Progress and performance aggregation\<close>

text \<open>
  The rows of \<^verbatim>\<open>quizHistory\<close> and the subject catalogue, as the Performance component
  reads them in \<^verbatim>\<open>fetchData\<close>.
\<close>

record quiz =
  subjectName :: string
  subtopicName :: string
  quiz_score :: int
  quiz_emotion :: string
  quiz_presentLevel :: int
  quiz_nextLevel :: int

record subtopic =
  subtopic_name :: string

record subject =
  subject_name :: string
  subtopics :: "subtopic list"

record totals =
  totalSubtopics :: nat
  completedSubtopics :: nat
  totalPerformanceScore :: real
  totalQuizzes :: nat

text \<open>
  The \<^verbatim>\<open>reduce\<close> that finds \<^verbatim>\<open>highestLevelQuiz\<close>; its initial value is the first
  element, and the caller has checked that there is one.
\<close>

definition highestLevelQuiz :: "quiz \<Rightarrow> quiz list \<Rightarrow> quiz" where
  "highestLevelQuiz first subtopicQuizzes =
     foldl (\<lambda>highest quiz. if quiz_nextLevel quiz > quiz_nextLevel highest then quiz else highest)
           first subtopicQuizzes"

text \<open>
  The body of \<^verbatim>\<open>subject.subtopics.forEach\<close>. The state is the pair of the running
  totals and the subject's \<^verbatim>\<open>subjectPerformanceScores\<close>.
\<close>

definition subtopicStep :: "quiz list \<Rightarrow> totals \<times> real list \<Rightarrow> subtopic \<Rightarrow> totals \<times> real list" where
  "subtopicStep subjectQuizzes st subtopic =
     (let subtopicQuizzes = filter (\<lambda>quiz. subtopicName quiz = subtopic_name subtopic) subjectQuizzes
      in case subtopicQuizzes of
           [] \<Rightarrow> st
         | first # _ \<Rightarrow>
             (let (t, subjectPerformanceScores) = st;
                  highest = highestLevelQuiz first subtopicQuizzes;
                  isCompleted = (quiz_nextLevel highest \<ge> 8 \<and> quiz_score highest \<ge> 80);
                  subtopicPerformanceScores =
                    map (\<lambda>quiz. calculatePerformanceScore (quiz_nextLevel quiz) (quiz_score quiz))
                        subtopicQuizzes
              in (t\<lparr>completedSubtopics :=
                       (if isCompleted then completedSubtopics t + 1 else completedSubtopics t),
                     totalSubtopics := totalSubtopics t + 1\<rparr>,
                  subjectPerformanceScores @ subtopicPerformanceScores)))"

text \<open>The body of \<^verbatim>\<open>subjectsResponse.data.forEach\<close>.\<close>

definition subjectStep :: "quiz list \<Rightarrow> totals \<Rightarrow> subject \<Rightarrow> totals" where
  "subjectStep quizHistory t subject =
     (let subjectQuizzes = filter (\<lambda>quiz. subjectName quiz = subject_name subject) quizHistory
      in if length subjectQuizzes > 0
         then (let (t', subjectPerformanceScores) =
                     foldl (subtopicStep subjectQuizzes) (t, []) (subtopics subject)
               in t'\<lparr>totalPerformanceScore :=
                        totalPerformanceScore t' + foldl (+) 0 subjectPerformanceScores,
                      totalQuizzes := totalQuizzes t' + length subjectPerformanceScores\<rparr>)
         else t)"

definition aggregate :: "subject list \<Rightarrow> quiz list \<Rightarrow> totals" where
  "aggregate subjects quizHistory =
     foldl (subjectStep quizHistory)
           \<lparr>totalSubtopics = 0, completedSubtopics = 0, totalPerformanceScore = 0, totalQuizzes = 0\<rparr>
           subjects"

text \<open>
  JavaScript numbers are IEEE 754 doubles: a quotient or a product is the exact result
  rounded to the nearest number with a 53-bit significand, ties to the even significand.
  \<^verbatim>\<open>toDouble\<close> is that rounding (for numbers in the normal range, where all values of
  this component lie); \<^verbatim>\<open>exponentOf x\<close> is the exponent of the power of two at or below
  \<^verbatim>\<open>x\<close>. \<^verbatim>\<open>Math.round\<close> returns the nearest integer and rounds halves up.
\<close>

fun bitLength :: "nat \<Rightarrow> nat" where
  "bitLength n = (if n = 0 then 0 else Suc (bitLength (n div 2)))"

declare bitLength.simps [simp del]

definition exponentOf :: "real \<Rightarrow> int" where
  "exponentOf x =
     (if x \<ge> 1 then int (bitLength (nat \<lfloor>x\<rfloor>)) - 1
      else - int (bitLength (nat (\<lceil>1 / x\<rceil> - 1))))"

definition pow2 :: "int \<Rightarrow> real" where
  "pow2 k = (if k \<ge> 0 then 2 ^ nat k else 1 / 2 ^ nat (- k))"

definition roundHalfEven :: "real \<Rightarrow> int" where
  "roundHalfEven y =
     (let f = \<lfloor>y\<rfloor>; r = y - of_int f
      in if r < 1 / 2 then f else if r > 1 / 2 then f + 1 else if even f then f else f + 1)"

definition toDouble :: "real \<Rightarrow> real" where
  "toDouble x =
     (if x = 0 then 0
      else (let ulp = pow2 (exponentOf \<bar>x\<bar> - 52)
            in sgn x * (ulp * of_int (roundHalfEven (\<bar>x\<bar> / ulp)))))"

definition mathRound :: "real \<Rightarrow> int" where
  "mathRound x = \<lfloor>x + 1 / 2\<rfloor>"

text \<open>
  \<^verbatim>\<open>Math.round((completedSubtopics / totalSubtopics) * 100)\<close> and
  \<^verbatim>\<open>Math.round(totalPerformanceScore / totalQuizzes)\<close>. The performance scores are
  integers or halves of integers, which doubles add without rounding.
\<close>

definition overallPercentage :: "subject list \<Rightarrow> quiz list \<Rightarrow> int" where
  "overallPercentage subjects quizHistory =
     (let t = aggregate subjects quizHistory
      in if totalSubtopics t > 0
         then mathRound (toDouble
                (toDouble (real (completedSubtopics t) / real (totalSubtopics t)) * 100))
         else 0)"

definition overallAverageScore :: "subject list \<Rightarrow> quiz list \<Rightarrow> int" where
  "overallAverageScore subjects quizHistory =
     (let t = aggregate subjects quizHistory
      in if totalQuizzes t > 0
         then mathRound (toDouble (totalPerformanceScore t / real (totalQuizzes t)))
         else 0)"

text \<open>
  The completion percentage in the words of the specification. The attempts of a
  subtopic are the rows that carry the names of the subtopic and of its subject; the
  attempt with the highest \<^verbatim>\<open>nextLevel\<close> is the first one that no other attempt exceeds.
\<close>

definition attemptsBySubtopic :: "subject list \<Rightarrow> quiz list \<Rightarrow> quiz list list" where
  "attemptsBySubtopic subjects quizHistory =
     concat (map (\<lambda>subject.
                    map (\<lambda>subtopic.
                           filter (\<lambda>quiz. subjectName quiz = subject_name subject \<and>
                                           subtopicName quiz = subtopic_name subtopic)
                                  quizHistory)
                        (subtopics subject))
                 subjects)"

definition hasHighestNextLevel :: "quiz list \<Rightarrow> quiz \<Rightarrow> bool" where
  "hasHighestNextLevel attempts a \<longleftrightarrow> (\<forall>b \<in> set attempts. quiz_nextLevel b \<le> quiz_nextLevel a)"

definition subtopicCompleted :: "quiz list \<Rightarrow> bool" where
  "subtopicCompleted attempts \<longleftrightarrow>
     (case filter (hasHighestNextLevel attempts) attempts of
        [] \<Rightarrow> False
      | a # _ \<Rightarrow> quiz_nextLevel a \<ge> 8 \<and> quiz_score a \<ge> 80)"

definition attemptedSubtopics :: "subject list \<Rightarrow> quiz list \<Rightarrow> quiz list list" where
  "attemptedSubtopics subjects quizHistory =
     filter (\<lambda>attempts. attempts \<noteq> []) (attemptsBySubtopic subjects quizHistory)"

definition completionPercentage :: "subject list \<Rightarrow> quiz list \<Rightarrow> int" where
  "completionPercentage subjects quizHistory =
     (let attempted = attemptedSubtopics subjects quizHistory
      in if attempted = [] then 0
         else round (100 * real (length (filter subtopicCompleted attempted)) /
                     real (length attempted)))"





text \<open>
  A catalogue of forty subtopics, each attempted once at level 5 with score 90: for the
  first twenty-three with emotion happy (next level 8), for the other seventeen with
  emotion neutral (next level 7).
\<close>

definition fortyNames :: "string list" where
  "fortyNames =
     [''t01'', ''t02'', ''t03'', ''t04'', ''t05'', ''t06'', ''t07'', ''t08'', ''t09'', ''t10'',
      ''t11'', ''t12'', ''t13'', ''t14'', ''t15'', ''t16'', ''t17'', ''t18'', ''t19'', ''t20'',
      ''t21'', ''t22'', ''t23'', ''t24'', ''t25'', ''t26'', ''t27'', ''t28'', ''t29'', ''t30'',
      ''t31'', ''t32'', ''t33'', ''t34'', ''t35'', ''t36'', ''t37'', ''t38'', ''t39'', ''t40'']"

definition fortySubjects :: "subject list" where
  "fortySubjects =
     [\<lparr>subject_name = ''Math'',
       subtopics = map (\<lambda>n. \<lparr>subtopic_name = n\<rparr>) fortyNames\<rparr>]"

definition fortyHistory :: "quiz list" where
  "fortyHistory =
     map (\<lambda>n. \<lparr>subjectName = ''Math'', subtopicName = n, quiz_score = 90,
                quiz_emotion = ''happy'', quiz_presentLevel = 5, quiz_nextLevel = 8\<rparr>)
         (take 23 fortyNames) @
     map (\<lambda>n. \<lparr>subjectName = ''Math'', subtopicName = n, quiz_score = 90,
                quiz_emotion = ''neutral'', quiz_presentLevel = 5, quiz_nextLevel = 7\<rparr>)
         (drop 23 fortyNames)"

section \<open>Chat relay\<close>

text \<open>
  The collections the chat routes query. Object ids are numbers here; a path parameter
  that is no object id makes the query throw, which the routes answer with status 500,
  and such a request is outside this model. \<^verbatim>\<open>updatedAt\<close> is the timestamp the schema
  option \<^verbatim>\<open>timestamps\<close> keeps on every write.
\<close>

type_synonym oid = nat

datatype assignment_status = Active | Inactive

record assignment =
  therapistId :: oid
  userId :: oid
  status :: assignment_status

record message =
  senderId :: oid
  receiverId :: oid
  content :: string
  read :: bool
  attachment :: "string option"
  createdAt :: nat
  updatedAt :: nat

record chat_db =
  assignments :: "assignment list"
  messages :: "message list"

datatype chat_body = Messages "message list" | Sent message | Failure string

type_synonym chat_response = "nat \<times> chat_body"

definition activeAssignment :: "chat_db \<Rightarrow> oid \<Rightarrow> oid \<Rightarrow> assignment option" where
  "activeAssignment db currentUserId uid =
     find (\<lambda>a. ((therapistId a = currentUserId \<and> userId a = uid) \<or>
                 (therapistId a = uid \<and> userId a = currentUserId)) \<and>
                status a = Active)
          (assignments db)"

text \<open>\<^verbatim>\<open>GET /api/chat/:userId\<close> at time \<^verbatim>\<open>now\<close>, for the authenticated \<^verbatim>\<open>currentUserId\<close>.\<close>

definition getChatHistory :: "nat \<Rightarrow> chat_db \<Rightarrow> oid \<Rightarrow> oid \<Rightarrow> chat_db \<times> chat_response" where
  "getChatHistory now db currentUserId uid =
     (case activeAssignment db currentUserId uid of
        None \<Rightarrow> (db, (403, Failure ''Not authorized to chat with this user''))
      | Some _ \<Rightarrow>
          (let found = sort_key createdAt
                         (filter (\<lambda>m. (senderId m = currentUserId \<and> receiverId m = uid) \<or>
                                       (senderId m = uid \<and> receiverId m = currentUserId))
                                 (messages db));
               db' = db\<lparr>messages :=
                          map (\<lambda>m. if senderId m = uid \<and> receiverId m = currentUserId \<and> read m = False
                                    then m\<lparr>read := True, updatedAt := now\<rparr> else m)
                              (messages db)\<rparr>
           in (db', (200, Messages found))))"

text \<open>
  \<^verbatim>\<open>POST /api/chat/:userId\<close>. The schema trims the content and requires it, so a
  content of white space alone fails validation in \<^verbatim>\<open>save\<close> and the \<^verbatim>\<open>catch\<close> block
  answers 500. The forwarding over the recipient's web socket is not part of the model.
\<close>

definition isSpace :: "char \<Rightarrow> bool" where
  "isSpace c \<longleftrightarrow> (of_char c :: nat) \<in> {9, 10, 11, 12, 13, 32}"

definition trim :: "string \<Rightarrow> string" where
  "trim s = rev (dropWhile isSpace (rev (dropWhile isSpace s)))"

definition sendMessage ::
  "nat \<Rightarrow> chat_db \<Rightarrow> oid \<Rightarrow> oid \<Rightarrow> string option \<Rightarrow> string option \<Rightarrow> chat_db \<times> chat_response" where
  "sendMessage now db currentUserId uid body_content body_attachment =
     (if \<not> truthy body_content then (db, (400, Failure ''Message content is required''))
      else case activeAssignment db currentUserId uid of
             None \<Rightarrow> (db, (403, Failure ''Not authorized to chat with this user''))
           | Some _ \<Rightarrow>
               (let msg = \<lparr>senderId = currentUserId, receiverId = uid,
                           content = trim (param body_content), read = False,
                           attachment = body_attachment, createdAt = now, updatedAt = now\<rparr>
                in if content msg = [] then (db, (500, Failure ''Error sending message''))
                   else (db\<lparr>messages := messages db @ [msg]\<rparr>, (201, Sent msg))))"

text \<open>
  The relation of the specification: an active assignment links the two users, in
  either direction.
\<close>

definition linked :: "chat_db \<Rightarrow> oid \<Rightarrow> oid \<Rightarrow> bool" where
  "linked db a b \<longleftrightarrow>
     (\<exists>x \<in> set (assignments db). status x = Active \<and>
        ((therapistId x = a \<and> userId x = b) \<or> (therapistId x = b \<and> userId x = a)))"

definition unreadFrom :: "oid \<Rightarrow> oid \<Rightarrow> message \<Rightarrow> bool" where
  "unreadFrom peer viewer m \<longleftrightarrow> senderId m = peer \<and> receiverId m = viewer \<and> \<not> read m"

text \<open>A collection and messages to run the chat routes on.\<close>

definition exampleChat :: chat_db where
  "exampleChat =
     \<lparr>assignments = [\<lparr>therapistId = 7, userId = 8, status = Active\<rparr>,
                     \<lparr>therapistId = 7, userId = 9, status = Inactive\<rparr>],
      messages = [\<lparr>senderId = 7, receiverId = 8, content = ''hello'', read = False,
                    attachment = None, createdAt = 10, updatedAt = 10\<rparr>,
                  \<lparr>senderId = 8, receiverId = 7, content = ''hi'', read = False,
                    attachment = None, createdAt = 11, updatedAt = 11\<rparr>]\<rparr>"

section \<open>Quiz in progress\<close>

text \<open>
  The \<^verbatim>\<open>QuizInProgress\<close> collection and the two routes that write it. A field of the
  request body is \<^const>\<open>None\<close> when it is missing or otherwise falsy; a level of 0 is
  falsy too. \<^verbatim>\<open>findOne\<close> returns the first matching document.
\<close>

record quiz_in_progress =
  qip_userId :: oid
  qip_subjectId :: oid
  qip_subtopicId :: oid
  qip_level :: int
  attempted :: bool
  lastUpdated :: nat

record save_body =
  body_subjectId :: "oid option"
  body_subtopicId :: "oid option"
  body_level :: "int option"

definition inProgressFor :: "oid \<Rightarrow> oid \<Rightarrow> oid \<Rightarrow> quiz_in_progress \<Rightarrow> bool" where
  "inProgressFor uid subjectId subtopicId d \<longleftrightarrow>
     qip_userId d = uid \<and> qip_subjectId d = subjectId \<and> qip_subtopicId d = subtopicId \<and>
     attempted d = False"

fun updateFirst :: "('a \<Rightarrow> bool) \<Rightarrow> ('a \<Rightarrow> 'a) \<Rightarrow> 'a list \<Rightarrow> 'a list" where
  "updateFirst P f [] = []"
| "updateFirst P f (x # xs) = (if P x then f x # xs else x # updateFirst P f xs)"

text \<open>\<^verbatim>\<open>POST /api/quiz-in-progress\<close>: the collection afterwards and the status code.\<close>

definition saveQuizInProgress ::
  "nat \<Rightarrow> oid \<Rightarrow> save_body \<Rightarrow> quiz_in_progress list \<Rightarrow> quiz_in_progress list \<times> nat" where
  "saveQuizInProgress now uid body db =
     (case (body_subjectId body, body_subtopicId body, body_level body) of
        (Some subjectId, Some subtopicId, Some lvl) \<Rightarrow>
          if lvl = 0 then (db, 400)
          else (case find (inProgressFor uid subjectId subtopicId) db of
                  Some _ \<Rightarrow>
                    (updateFirst (inProgressFor uid subjectId subtopicId)
                       (\<lambda>d. d\<lparr>qip_level := lvl, lastUpdated := now\<rparr>) db, 200)
                | None \<Rightarrow>
                    (db @ [\<lparr>qip_userId = uid, qip_subjectId = subjectId,
                            qip_subtopicId = subtopicId, qip_level = lvl,
                            attempted = False, lastUpdated = now\<rparr>], 200))
      | _ \<Rightarrow> (db, 400))"

text \<open>
  \<^verbatim>\<open>POST /api/quiz-in-progress/complete\<close>. This route does not validate the body; ids
  are taken as given, and a missing or zero level becomes 1 (\<^verbatim>\<open>level || 1\<close>).
\<close>

definition completeQuizInProgress ::
  "nat \<Rightarrow> oid \<Rightarrow> oid \<Rightarrow> oid \<Rightarrow> int option \<Rightarrow> quiz_in_progress list \<Rightarrow> quiz_in_progress list" where
  "completeQuizInProgress now uid subjectId subtopicId lvl db =
     (case find (inProgressFor uid subjectId subtopicId) db of
        Some _ \<Rightarrow>
          updateFirst (inProgressFor uid subjectId subtopicId)
            (\<lambda>d. d\<lparr>attempted := True, lastUpdated := now\<rparr>) db
      | None \<Rightarrow>
          db @ [\<lparr>qip_userId = uid, qip_subjectId = subjectId, qip_subtopicId = subtopicId,
                 qip_level = (case lvl of None \<Rightarrow> 1 | Some l \<Rightarrow> if l = 0 then 1 else l),
                 attempted = True, lastUpdated = now\<rparr>])"

text \<open>
  The collections the two routes can produce, one request after another, from the empty
  collection.
\<close>

inductive reachable :: "quiz_in_progress list \<Rightarrow> bool" where
  empty: "reachable []"
| save: "reachable db \<Longrightarrow> reachable (fst (saveQuizInProgress now uid body db))"
| complete: "reachable db \<Longrightarrow> reachable (completeQuizInProgress now uid subjectId subtopicId lvl db)"

text \<open>
  At most one document per user, subject and subtopic is in progress
  (\<^verbatim>\<open>attempted = false\<close>).
\<close>

definition atMostOneInProgress :: "quiz_in_progress list \<Rightarrow> bool" where
  "atMostOneInProgress db \<longleftrightarrow>
     (\<forall>uid subjectId subtopicId. length (filter (inProgressFor uid subjectId subtopicId) db) \<le> 1)"

definition saveBody :: "oid \<Rightarrow> oid \<Rightarrow> int \<Rightarrow> save_body" where
  "saveBody subjectId subtopicId lvl =
     \<lparr>body_subjectId = Some subjectId, body_subtopicId = Some subtopicId, body_level = Some lvl\<rparr>"

section \<open>The Level Engine meets its contract\<close>

lemma clamp_max_min: "max 1 (min 10 x) = clamp 1 10 x"
  by (simp add: clamp_def max_def min_def)

lemma calculateNewLevel_levelChange:
  fixes c s :: int
  shows "calculateNewLevel c s e =
     max 1 (min 10 (c + ((if s \<ge> 80 then 2 else if s < 50 then - 1 else 0) +
       (if e = ''happy'' then 1 else if e = ''sad'' then - 1 else if e = ''angry'' then - 1
        else if e = ''confused'' then - 1 else if e = ''excited'' then 1 else 0))))"
  unfolding calculateNewLevel_def Let_def
  by (intro arg_cong[where f="max 1"] arg_cong[where f="min 10"] arg_cong[where f="(+) c"]) simp

lemma emotionDelta_enum:
  "e \<in> emotionEnum \<Longrightarrow>
   emotionDelta e =
     (if e = ''happy'' then 1 else if e = ''sad'' then - 1 else if e = ''angry'' then - 1
      else if e = ''confused'' then - 1 else if e = ''excited'' then 1 else 0)"
  unfolding emotionEnum_def insert_iff empty_iff emotionDelta_def
  by (elim disjE) simp_all

text \<open>
  Claim C1. For a current level in 1..10, a score in 0..100 and one of the six emotions,
  \<^verbatim>\<open>calculateNewLevel\<close> returns the current level plus the score delta plus the emotion
  delta, clamped to 1..10; the result lies in 1..10; and level 5 with score 85 and
  emotion happy gives 8.
\<close>

theorem calculateNewLevel_contract:
  fixes currentLevel score :: int and emotion :: string
  assumes "1 \<le> currentLevel" and "currentLevel \<le> 10"
    and "0 \<le> score" and "score \<le> 100"
    and "emotion \<in> emotionEnum"
  shows "calculateNewLevel currentLevel score emotion =
           clamp 1 10 (currentLevel + scoreDelta score + emotionDelta emotion)
         \<and> 1 \<le> calculateNewLevel currentLevel score emotion
         \<and> calculateNewLevel currentLevel score emotion \<le> 10
         \<and> calculateNewLevel 5 85 ''happy'' = 8"
proof -
  have "calculateNewLevel currentLevel score emotion =
          max 1 (min 10 (currentLevel + (scoreDelta score + emotionDelta emotion)))"
    unfolding calculateNewLevel_levelChange emotionDelta_enum [OF assms(5)] scoreDelta_def ..
  then have eq: "calculateNewLevel currentLevel score emotion =
          clamp 1 10 (currentLevel + scoreDelta score + emotionDelta emotion)"
    by (simp only: clamp_max_min add.assoc)
  have range: "1 \<le> clamp 1 10 (currentLevel + scoreDelta score + emotionDelta emotion)
         \<and> clamp 1 10 (currentLevel + scoreDelta score + emotionDelta emotion) \<le> 10"
    by (simp add: clamp_def)
  have ex: "calculateNewLevel 5 85 ''happy'' = 8"
    by (simp add: calculateNewLevel_def)
  from eq range ex show ?thesis by simp
qed

theorem calculateNewLevel_contract_witness:
  "(1::int) \<le> 5 \<and> (5::int) \<le> 10 \<and> (0::int) \<le> 85 \<and> (85::int) \<le> 100 \<and> ''happy'' \<in> emotionEnum
   \<and> calculateNewLevel 5 85 ''happy'' = clamp 1 10 (5 + scoreDelta 85 + emotionDelta ''happy'')
   \<and> clamp 1 10 (5 + scoreDelta 85 + emotionDelta ''happy'') = 8"
  using calculateNewLevel_contract [of 5 85 "''happy''"]
  by (simp add: emotionEnum_def clamp_def scoreDelta_def emotionDelta_def)

section \<open>The review-content branch of a quiz session\<close>

lemma run_snoc:
  "run a (es @ [e]) = (case run a es of None \<Rightarrow> None | Some a' \<Rightarrow> step a' e)"
  by (induction es arbitrary: a) (simp_all split: option.splits)

lemma sessionScores_snoc:
  "sessionScores (es @ [e]) = (if e = ReadContent then [] else sessionScores es @ scoreOf e)"
  by (simp add: sessionScores_def)

lemma sessionScores_Nil: "sessionScores [] = []"
  by (simp add: sessionScores_def)

lemma failureStreak_snoc:
  "failureStreak (xs @ [x]) = (if x < 60 then failureStreak xs + 1 else 0)"
  by (simp add: failureStreak_def)

lemma failureStreak_Nil: "failureStreak [] = 0"
  by (simp add: failureStreak_def)

lemma failureStreak_ge2:
  "2 \<le> failureStreak xs \<longleftrightarrow> (\<exists>ys a b. xs = ys @ [a, b] \<and> a < 60 \<and> b < 60)"
proof (cases xs rule: rev_cases)
  case Nil
  then show ?thesis by (simp add: failureStreak_def)
next
  case (snoc ys b)
  note xs = this
  show ?thesis
  proof (cases ys rule: rev_cases)
    case Nil
    with xs show ?thesis by (simp add: failureStreak_def)
  next
    case (snoc zs a)
    with xs have "xs = zs @ [a, b]" by simp
    then show ?thesis by (auto simp: failureStreak_def)
  qed
qed

lemma submit_fields:
  "consecutiveFailures (captureEffect (quizEndEffect (handleSubmit x p s))) =
     (if x < 60 then consecutiveFailures s + 1 else 0)"
  "showResults (captureEffect (quizEndEffect (handleSubmit x p s))) = (p \<or> showResults s)"
  "score (captureEffect (quizEndEffect (handleSubmit x p s))) = Some x"
  by (simp_all add: captureEffect_def quizEndEffect_def handleSubmit_def Let_def)

lemma detect_fields:
  "consecutiveFailures (quizEndEffect (onEmotionDetected e s)) = consecutiveFailures s"
  "showResults (quizEndEffect (onEmotionDetected e s)) = showResults s"
  "score (quizEndEffect (onEmotionDetected e s)) = score s"
  by (simp_all add: quizEndEffect_def onEmotionDetected_def Let_def)

lemma nextQuiz_keeps_counter:
  assumes "sessionInv es (Quiz s)" and "showResults s" and "\<not> showReviewContent s"
  shows "consecutiveFailures s < 3"
proof -
  from assms(1,2) have ne: "sessionScores es \<noteq> []"
    and sc: "score s = Some (last (sessionScores es))"
    and cf: "consecutiveFailures s = failureStreak (sessionScores es)"
    by simp_all
  show ?thesis
  proof (cases "last (sessionScores es) < 60")
    case True
    with assms(3) sc show ?thesis by (simp add: showReviewContent_def)
  next
    case False
    from ne obtain ys y where "sessionScores es = ys @ [y]"
      by (cases "sessionScores es" rule: rev_cases) auto
    with False cf show ?thesis by (simp add: failureStreak_snoc)
  qed
qed

lemma step_sessionInv:
  assumes "sessionInv es a" and "step a e = Some a'"
  shows "sessionInv (es @ [e]) a'"
proof (cases a)
  case (Review nl saved)
  with assms(2) have e: "e = BackToQuiz" and a': "a' = handleBackToQuiz nl saved"
    by (cases e; simp)+
  from assms(1) Review have "sessionScores es = []" by simp
  with e a' show ?thesis
    by (simp add: handleBackToQuiz_def Let_def freshSession_def sessionScores_snoc
        failureStreak_Nil)
next
  case (Quiz s)
  note a = this
  show ?thesis
  proof (cases e)
    case (Detect em)
    with assms a show ?thesis
      by (auto simp: sessionScores_snoc detect_fields split: if_splits)
  next
    case DetectFailed
    with assms a show ?thesis by (auto simp: sessionScores_snoc)
  next
    case (Submit x p)
    with assms(2) a have a': "a' = Quiz (captureEffect (quizEndEffect (handleSubmit x p s)))"
      and "\<not> showResults s"
      by (auto simp: screen_def split: if_splits)
    with assms(1) a Submit show ?thesis
      by (simp add: sessionScores_snoc submit_fields failureStreak_snoc)
  next
    case (NextQuiz f)
    with assms(2) a have a': "a' = handleNextQuiz f s" and res: "showResults s"
      and nr: "\<not> showReviewContent s"
      by (auto simp: screen_def split: if_splits)
    from assms(1) a have "sessionInv es (Quiz s)" by simp
    from nextQuiz_keeps_counter [OF this res nr] have "consecutiveFailures s < 3" .
    with a' assms(1) a NextQuiz show ?thesis
      by (simp add: sessionScores_snoc handleNextQuiz_def Let_def)
  next
    case ReadContent
    with assms a show ?thesis
      by (auto simp: sessionScores_snoc handleReadContent_def split: if_splits)
  next
    case BackToQuiz
    with assms a show ?thesis by simp
  qed
qed

lemma run_sessionInv:
  "run (Quiz (freshSession lvl)) es = Some a \<Longrightarrow> sessionInv es a"
proof (induction es arbitrary: a rule: rev_induct)
  case Nil
  then show ?case by (auto simp: freshSession_def failureStreak_Nil sessionScores_Nil)
next
  case (snoc e es)
  then obtain a0 where "run (Quiz (freshSession lvl)) es = Some a0" and "step a0 e = Some a"
    by (auto simp: run_snoc split: option.splits)
  with snoc.IH show ?case by (blast intro: step_sessionInv)
qed

text \<open>
  Claim C2, as the code has it. From a fresh session, whenever the results screen is
  shown after a run of events, it offers the review-content branch (in place of the Take
  Next Quiz button) exactly when the last two submissions since the component was
  mounted both scored below 60; so not when the submission before the last one passed.
  A submission with a score of 60 or more sets the failure counter to 0. Taking the
  review-content branch and returning to the quiz mounts a new component whose counter
  is 0 and which has no submissions yet.
\<close>

theorem review_after_two_failures:
  assumes "run (Quiz (freshSession lvl)) es = Some (Quiz s)" and "screen s = ResultsScreen"
  shows "(showReviewContent s \<longleftrightarrow>
            (\<exists>ys a b. sessionScores es = ys @ [a, b] \<and> a < 60 \<and> b < 60))
         \<and> (\<forall>ys a b. sessionScores es = ys @ [a, b] \<and> a \<ge> 60 \<longrightarrow> \<not> showReviewContent s)
         \<and> (\<forall>x posted t. x \<ge> 60 \<longrightarrow> consecutiveFailures (handleSubmit x posted t) = 0)
         \<and> (showReviewContent s \<longrightarrow>
              (\<exists>s'. run (Quiz (freshSession lvl)) (es @ [ReadContent, BackToQuiz]) = Some (Quiz s')
                    \<and> consecutiveFailures s' = 0 \<and> screen s' = QuizScreen
                    \<and> sessionScores (es @ [ReadContent, BackToQuiz]) = []))"
proof -
  from assms(1) have inv: "sessionInv es (Quiz s)" by (rule run_sessionInv)
  from assms(2) have "showResults s" by (auto simp: screen_def split: if_splits)
  with inv have ne: "sessionScores es \<noteq> []"
    and sc: "score s = Some (last (sessionScores es))"
    and cf: "consecutiveFailures s = failureStreak (sessionScores es)"
    by simp_all
  have *: "showReviewContent s \<longleftrightarrow>
            (\<exists>ys a b. sessionScores es = ys @ [a, b] \<and> a < 60 \<and> b < 60)"
  proof
    assume "showReviewContent s"
    with cf have "2 \<le> failureStreak (sessionScores es)" by (simp add: showReviewContent_def)
    then show "\<exists>ys a b. sessionScores es = ys @ [a, b] \<and> a < 60 \<and> b < 60"
      by (simp only: failureStreak_ge2)
  next
    assume r: "\<exists>ys a b. sessionScores es = ys @ [a, b] \<and> a < 60 \<and> b < 60"
    then have "2 \<le> failureStreak (sessionScores es)" by (simp only: failureStreak_ge2)
    moreover from r have "last (sessionScores es) < 60" by auto
    ultimately show "showReviewContent s" using cf sc by (simp add: showReviewContent_def)
  qed
  then have low: "\<forall>ys a b. sessionScores es = ys @ [a, b] \<and> a \<ge> 60 \<longrightarrow> \<not> showReviewContent s"
    by auto
  have reset: "\<forall>x posted t. x \<ge> 60 \<longrightarrow> consecutiveFailures (handleSubmit x posted t) = 0"
    by (simp add: handleSubmit_def Let_def)
  have remount: "\<exists>s'. run (Quiz (freshSession lvl)) (es @ [ReadContent, BackToQuiz]) = Some (Quiz s')
                    \<and> consecutiveFailures s' = 0 \<and> screen s' = QuizScreen
                    \<and> sessionScores (es @ [ReadContent, BackToQuiz]) = []"
    if "showReviewContent s"
  proof -
    have "es @ [ReadContent, BackToQuiz] = (es @ [ReadContent]) @ [BackToQuiz]" by simp
    then have "run (Quiz (freshSession lvl)) (es @ [ReadContent, BackToQuiz]) =
        Some (handleBackToQuiz (Some (nextLevel s)) (savedResults s))"
      using assms that by (simp only: run_snoc) (simp add: handleReadContent_def)
    moreover have "sessionScores ((es @ [ReadContent]) @ [BackToQuiz]) = []"
      by (simp only: sessionScores_snoc) simp
    ultimately show ?thesis
      by (simp add: handleBackToQuiz_def Let_def freshSession_def screen_def)
  qed
  from * low reset remount show ?thesis by blast
qed


lemma neutral_levels:
  "calculateNewLevel 5 40 ''neutral'' = 4" "calculateNewLevel 4 30 ''neutral'' = 3"
  "calculateNewLevel 5 50 ''neutral'' = 5"
  by (simp_all add: calculateNewLevel_def)

lemma two_failures_run:
  "run (Quiz (freshSession 5)) [Submit 40 True, NextQuiz True, Submit 30 True] =
     Some (Quiz \<lparr>score = Some 30, selectedEmotion = ''neutral'', emotionDetections = [],
                  detectedEmotion = None, currentLevel = 4, presentLevel = 4, nextLevel = 3,
                  consecutiveFailures = 2, showResults = True, error = False,
                  savedResults =
                    [\<lparr>attempt_score = 40, attempt_emotion = ''neutral'',
                       attempt_presentLevel = 5, attempt_nextLevel = 4\<rparr>,
                     \<lparr>attempt_score = 30, attempt_emotion = ''neutral'',
                       attempt_presentLevel = 4, attempt_nextLevel = 3\<rparr>]\<rparr>)"
  by (simp add: freshSession_def screen_def handleSubmit_def quizEndEffect_def captureEffect_def
      showReviewContent_def handleNextQuiz_def neutral_levels)

theorem review_after_two_failures_witness:
  "run (Quiz (freshSession 5)) [Submit 40 True, NextQuiz True, Submit 30 True] =
     Some (Quiz \<lparr>score = Some 30, selectedEmotion = ''neutral'', emotionDetections = [],
                  detectedEmotion = None, currentLevel = 4, presentLevel = 4, nextLevel = 3,
                  consecutiveFailures = 2, showResults = True, error = False,
                  savedResults =
                    [\<lparr>attempt_score = 40, attempt_emotion = ''neutral'',
                       attempt_presentLevel = 5, attempt_nextLevel = 4\<rparr>,
                     \<lparr>attempt_score = 30, attempt_emotion = ''neutral'',
                       attempt_presentLevel = 4, attempt_nextLevel = 3\<rparr>]\<rparr>)
   \<and> sessionScores [Submit 40 True, NextQuiz True, Submit 30 True] = [] @ [40, 30]
   \<and> showReviewContent
        \<lparr>score = Some 30, selectedEmotion = ''neutral'', emotionDetections = [],
         detectedEmotion = None, currentLevel = 4, presentLevel = 4, nextLevel = 3,
         consecutiveFailures = 2, showResults = True, error = False,
         savedResults =
           [\<lparr>attempt_score = 40, attempt_emotion = ''neutral'',
              attempt_presentLevel = 5, attempt_nextLevel = 4\<rparr>,
            \<lparr>attempt_score = 30, attempt_emotion = ''neutral'',
              attempt_presentLevel = 4, attempt_nextLevel = 3\<rparr>]\<rparr>
   \<and> sessionScores ([Submit 40 True, NextQuiz True, Submit 30 True] @ [ReadContent, BackToQuiz]) = []"
proof -
  have sc: "screen \<lparr>score = Some 30, selectedEmotion = ''neutral'', emotionDetections = [],
         detectedEmotion = None, currentLevel = 4, presentLevel = 4, nextLevel = 3,
         consecutiveFailures = 2, showResults = True, error = False,
         savedResults =
           [\<lparr>attempt_score = 40, attempt_emotion = ''neutral'',
              attempt_presentLevel = 5, attempt_nextLevel = 4\<rparr>,
            \<lparr>attempt_score = 30, attempt_emotion = ''neutral'',
              attempt_presentLevel = 4, attempt_nextLevel = 3\<rparr>]\<rparr> = ResultsScreen"
    by (simp add: screen_def)
  have ss: "sessionScores [Submit 40 True, NextQuiz True, Submit 30 True] = [] @ [40, 30]"
    by (simp add: sessionScores_def)
  from review_after_two_failures [OF two_failures_run sc] ss two_failures_run
  show ?thesis by fastforce
qed

text \<open>
  Claim C2 as stated (three failures, never after only two) fails: after two
  submissions scoring 50 the results screen offers the review content, Take Next Quiz is
  not available, and the Review Content button leads to the review page.
\<close>

theorem review_after_three_only_counterexample:
  "run (Quiz (freshSession 5)) [Submit 50 True, NextQuiz True, Submit 50 True] =
     Some (Quiz \<lparr>score = Some 50, selectedEmotion = ''neutral'', emotionDetections = [],
                  detectedEmotion = None, currentLevel = 5, presentLevel = 5, nextLevel = 5,
                  consecutiveFailures = 2, showResults = True, error = False,
                  savedResults =
                    [\<lparr>attempt_score = 50, attempt_emotion = ''neutral'',
                       attempt_presentLevel = 5, attempt_nextLevel = 5\<rparr>,
                     \<lparr>attempt_score = 50, attempt_emotion = ''neutral'',
                       attempt_presentLevel = 5, attempt_nextLevel = 5\<rparr>]\<rparr>)
   \<and> showReviewContent
        \<lparr>score = Some 50, selectedEmotion = ''neutral'', emotionDetections = [],
         detectedEmotion = None, currentLevel = 5, presentLevel = 5, nextLevel = 5,
         consecutiveFailures = 2, showResults = True, error = False,
         savedResults =
           [\<lparr>attempt_score = 50, attempt_emotion = ''neutral'',
              attempt_presentLevel = 5, attempt_nextLevel = 5\<rparr>,
            \<lparr>attempt_score = 50, attempt_emotion = ''neutral'',
              attempt_presentLevel = 5, attempt_nextLevel = 5\<rparr>]\<rparr>
   \<and> run (Quiz (freshSession 5)) [Submit 50 True, NextQuiz True, Submit 50 True, NextQuiz True] = None
   \<and> run (Quiz (freshSession 5)) [Submit 50 True, NextQuiz True, Submit 50 True, ReadContent] =
       Some (Review (Some 5)
               [\<lparr>attempt_score = 50, attempt_emotion = ''neutral'',
                  attempt_presentLevel = 5, attempt_nextLevel = 5\<rparr>,
                \<lparr>attempt_score = 50, attempt_emotion = ''neutral'',
                  attempt_presentLevel = 5, attempt_nextLevel = 5\<rparr>])
   \<and> sessionScores [Submit 50 True, NextQuiz True, Submit 50 True] = [50, 50]"
  by (simp add: freshSession_def screen_def handleSubmit_def quizEndEffect_def captureEffect_def
      showReviewContent_def handleNextQuiz_def handleReadContent_def neutral_levels
      sessionScores_def)

section \<open>The emotion submitted with a quiz\<close>

lemma toLowerCase_examples:
  "toLowerCase ''happy'' = ''happy''" "toLowerCase ''sad'' = ''sad''"
  by (simp_all add: toLowerCase_def toLowerChar_def)

lemma detect_example:
  "run (Quiz (freshSession 5)) [Detect ''happy'', Detect ''happy'', Detect ''sad'', e] =
     step (Quiz \<lparr>score = None, selectedEmotion = ''sad'',
                  emotionDetections = [''happy'', ''happy'', ''sad''],
                  detectedEmotion = Some ''sad'', currentLevel = 5, presentLevel = 5,
                  nextLevel = 5, consecutiveFailures = 0, showResults = False, error = False,
                  savedResults = []\<rparr>) e"
  by (simp add: freshSession_def quizEndEffect_def onEmotionDetected_def Let_def
      toLowerCase_examples split: option.split)

lemma mostFrequent_example: "getMostFrequentEmotion [''happy'', ''happy'', ''sad''] = ''happy''"
  by (simp add: getMostFrequentEmotion_def freqTable_def countedReading_def)

lemma level_examples:
  "calculateNewLevel 5 85 ''sad'' = 6" "calculateNewLevel 5 85 ''happy'' = 8"
  by (simp_all add: calculateNewLevel_def)

lemma submit_example:
  "handleSubmit 85 True
     \<lparr>score = None, selectedEmotion = ''sad'',
      emotionDetections = [''happy'', ''happy'', ''sad''],
      detectedEmotion = Some ''sad'', currentLevel = 5, presentLevel = 5,
      nextLevel = 5, consecutiveFailures = 0, showResults = False, error = False,
      savedResults = []\<rparr> =
     \<lparr>score = Some 85, selectedEmotion = ''sad'',
      emotionDetections = [''happy'', ''happy'', ''sad''],
      detectedEmotion = Some ''sad'', currentLevel = 5, presentLevel = 5,
      nextLevel = 6, consecutiveFailures = 0, showResults = True, error = False,
      savedResults = [\<lparr>attempt_score = 85, attempt_emotion = ''sad'',
                        attempt_presentLevel = 5, attempt_nextLevel = 6\<rparr>]\<rparr>"
  by (simp add: handleSubmit_def Let_def level_examples)

lemma effect_example:
  "captureEffect (quizEndEffect
     \<lparr>score = Some 85, selectedEmotion = ''sad'',
      emotionDetections = [''happy'', ''happy'', ''sad''],
      detectedEmotion = Some ''sad'', currentLevel = 5, presentLevel = 5,
      nextLevel = 6, consecutiveFailures = 0, showResults = True, error = False,
      savedResults = [\<lparr>attempt_score = 85, attempt_emotion = ''sad'',
                        attempt_presentLevel = 5, attempt_nextLevel = 6\<rparr>]\<rparr>) =
     \<lparr>score = Some 85, selectedEmotion = ''happy'',
      emotionDetections = [''happy'', ''happy'', ''sad''],
      detectedEmotion = Some ''happy'', currentLevel = 5, presentLevel = 5,
      nextLevel = 6, consecutiveFailures = 0, showResults = True, error = False,
      savedResults = [\<lparr>attempt_score = 85, attempt_emotion = ''sad'',
                        attempt_presentLevel = 5, attempt_nextLevel = 6\<rparr>]\<rparr>"
  by (simp add: captureEffect_def quizEndEffect_def Let_def mostFrequent_example)

text \<open>
  Claim C3 does not hold of the code. With the readings happy, happy, sad and a score
  of 85 at level 5, the attempt that \<^verbatim>\<open>handleSubmit\<close> posts carries the last reading,
  sad, and the next level 6 computed from it. The most frequent reading is happy, which
  would give level 8; the effect that computes it runs after the submission and only
  changes the emotion displayed.
\<close>

theorem submitted_emotion_is_last_reading:
  "run (Quiz (freshSession 5)) [Detect ''happy'', Detect ''happy'', Detect ''sad'', Submit 85 True] =
     Some (Quiz \<lparr>score = Some 85, selectedEmotion = ''happy'',
                  emotionDetections = [''happy'', ''happy'', ''sad''],
                  detectedEmotion = Some ''happy'', currentLevel = 5, presentLevel = 5,
                  nextLevel = 6, consecutiveFailures = 0, showResults = True, error = False,
                  savedResults = [\<lparr>attempt_score = 85, attempt_emotion = ''sad'',
                                    attempt_presentLevel = 5, attempt_nextLevel = 6\<rparr>]\<rparr>)
   \<and> getMostFrequentEmotion [''happy'', ''happy'', ''sad''] = ''happy''
   \<and> calculateNewLevel 5 85 ''happy'' = 8"
  unfolding detect_example mostFrequent_example level_examples
  by (simp add: screen_def submit_example effect_example)

text \<open>
  The readings are stored in lower case, while \<^verbatim>\<open>getMostFrequentEmotion\<close> compares them
  with the capitalised sentinels: a reading \<^verbatim>\<open>No Face Detected\<close> is counted like an
  emotion.
\<close>

lemma lower_sentinel: "toLowerCase ''No Face Detected'' = ''no face detected''"
  by code_simp

lemma sentinel_counted:
  "getMostFrequentEmotion [toLowerCase ''No Face Detected''] = ''no face detected''"
  unfolding lower_sentinel
  by (simp add: getMostFrequentEmotion_def freqTable_def countedReading_def)

section \<open>The level chosen by the quiz fetch\<close>

text \<open>
  Claim C5 does not hold of the code. For previous level 5, score 85 and emotion
  neutral the route computes 6 where the Level Engine computes 7; for level 5, score 60
  and emotion angry it computes 5 where the engine computes 4; for level 10, score 85
  and emotion sad it computes 9 where the engine computes 10.
\<close>

theorem backend_level_differs_from_engine:
  "quizLevel parseDigits parseDigits (previousQuery ''5'' ''85'' ''neutral'') = Num 6
   \<and> calculateNewLevel 5 85 ''neutral'' = 7
   \<and> quizLevel parseDigits parseDigits (previousQuery ''5'' ''60'' ''angry'') = Num 5
   \<and> calculateNewLevel 5 60 ''angry'' = 4
   \<and> quizLevel parseDigits parseDigits (previousQuery ''10'' ''85'' ''sad'') = Num 9
   \<and> calculateNewLevel 10 85 ''sad'' = 10"
  by (simp add: quizLevel_def parsedLevel_def previousQuery_def truthy_def param_def
      parseDigits_def digitValue_def calculateNewLevel_def)

text \<open>The level the route uses is always a number between 1 and 10.\<close>

lemma quizLevel_range:
  "\<exists>r. quizLevel parseInt parseFloat q = Num r \<and> 1 \<le> r \<and> r \<le> 10"
  by (cases "parsedLevel parseInt parseFloat q") (auto simp: quizLevel_def Let_def)

text \<open>
  Claim C10. When no level parameter is supplied and the three previous-attempt
  parameters are not all supplied, or when the level obtained from the parameters is
  not a number or lies outside 1..10, the questions are generated at level 5.
\<close>

theorem quizLevel_default:
  fixes parseInt parseFloat :: "string \<Rightarrow> jsnum"
  shows
  "(\<not> truthy (level q) \<and>
      \<not> (truthy (previousScore q) \<and> truthy (previousEmotion q) \<and> truthy (previousLevel q))
      \<longrightarrow> quizLevel parseInt parseFloat q = Num 5)
   \<and> (isNaN (parsedLevel parseInt parseFloat q) \<or> js_lt (parsedLevel parseInt parseFloat q) 1 \<or>
        js_gt (parsedLevel parseInt parseFloat q) 10
      \<longrightarrow> quizLevel parseInt parseFloat q = Num 5)
   \<and> (level q = None \<and> (previousScore q = None \<or> previousEmotion q = None \<or> previousLevel q = None)
      \<longrightarrow> quizLevel parseInt parseFloat q = Num 5)"
  by (auto simp: quizLevel_def parsedLevel_def Let_def truthy_def)

theorem quizLevel_default_witness:
  "quizLevel parseDigits parseDigits
     \<lparr>previousScore = Some ''85'', previousEmotion = None, previousLevel = Some ''7'', level = None\<rparr>
     = Num 5
   \<and> js_gt (parsedLevel parseDigits parseDigits (levelQuery ''11'')) 10
   \<and> quizLevel parseDigits parseDigits (levelQuery ''11'') = Num 5
   \<and> isNaN (parsedLevel parseDigits parseDigits (levelQuery ''abc''))
   \<and> quizLevel parseDigits parseDigits (levelQuery ''abc'') = Num 5"
  using quizLevel_default [of "\<lparr>previousScore = Some ''85'', previousEmotion = None,
      previousLevel = Some ''7'', level = None\<rparr>" parseDigits parseDigits]
    quizLevel_default [of "levelQuery ''11''" parseDigits parseDigits]
    quizLevel_default [of "levelQuery ''abc''" parseDigits parseDigits]
  by (simp add: parsedLevel_def levelQuery_def truthy_def param_def parseDigits_def digitValue_def)


section \<open>Counting attempted and completed subtopics\<close>

lemma highest_exists:
  assumes "xs \<noteq> []"
  shows "filter (hasHighestNextLevel xs) xs \<noteq> []"
proof -
  have "finite (quiz_nextLevel ` set xs)" and "quiz_nextLevel ` set xs \<noteq> {}"
    using assms by simp_all
  then have "Max (quiz_nextLevel ` set xs) \<in> quiz_nextLevel ` set xs"
    by (rule Max_in)
  then obtain a where a: "a \<in> set xs" and m: "quiz_nextLevel a = Max (quiz_nextLevel ` set xs)"
    by auto
  have "hasHighestNextLevel xs a"
    unfolding hasHighestNextLevel_def m by (simp add: Max_ge)
  with a show ?thesis by (auto simp: filter_empty_conv)
qed

lemma highest_hd:
  assumes "xs \<noteq> []"
  shows "hd (filter (hasHighestNextLevel xs) xs) \<in> set xs"
    and "hasHighestNextLevel xs (hd (filter (hasHighestNextLevel xs) xs))"
proof -
  from highest_exists [OF assms]
  have "hd (filter (hasHighestNextLevel xs) xs) \<in> set (filter (hasHighestNextLevel xs) xs)"
    by (rule hd_in_set)
  then show "hd (filter (hasHighestNextLevel xs) xs) \<in> set xs"
    and "hasHighestNextLevel xs (hd (filter (hasHighestNextLevel xs) xs))"
    by simp_all
qed

lemma highest_snoc:
  assumes "ys \<noteq> []"
  shows "hd (filter (hasHighestNextLevel (ys @ [x])) (ys @ [x])) =
           (if quiz_nextLevel x > quiz_nextLevel (hd (filter (hasHighestNextLevel ys) ys))
            then x else hd (filter (hasHighestNextLevel ys) ys))"
proof -
  let ?h = "hd (filter (hasHighestNextLevel ys) ys)"
  note h = highest_hd [OF assms]
  show ?thesis
  proof (cases "quiz_nextLevel x > quiz_nextLevel ?h")
    case True
    have "\<not> hasHighestNextLevel (ys @ [x]) y" if "y \<in> set ys" for y
    proof -
      from h(2) that have "quiz_nextLevel y \<le> quiz_nextLevel ?h"
        by (simp add: hasHighestNextLevel_def)
      with True show ?thesis by (auto simp: hasHighestNextLevel_def)
    qed
    then have "filter (hasHighestNextLevel (ys @ [x])) ys = []"
      by (simp add: filter_empty_conv)
    moreover have "hasHighestNextLevel (ys @ [x]) x"
      using h(2) True by (fastforce simp: hasHighestNextLevel_def)
    ultimately show ?thesis using True by simp
  next
    case False
    have "hasHighestNextLevel (ys @ [x]) y = hasHighestNextLevel ys y" if "y \<in> set ys" for y
    proof
      assume "hasHighestNextLevel (ys @ [x]) y"
      then show "hasHighestNextLevel ys y" by (simp add: hasHighestNextLevel_def)
    next
      assume y: "hasHighestNextLevel ys y"
      with h(1) have "quiz_nextLevel ?h \<le> quiz_nextLevel y"
        by (simp add: hasHighestNextLevel_def)
      with False y show "hasHighestNextLevel (ys @ [x]) y"
        by (simp add: hasHighestNextLevel_def)
    qed
    then have "filter (hasHighestNextLevel (ys @ [x])) ys = filter (hasHighestNextLevel ys) ys"
      by (simp cong: filter_cong)
    with highest_exists [OF assms] False show ?thesis by simp
  qed
qed

lemma foldl_highest:
  assumes "ys \<noteq> []"
  shows "highestLevelQuiz (hd (filter (hasHighestNextLevel ys) ys)) xs =
           hd (filter (hasHighestNextLevel (ys @ xs)) (ys @ xs))"
  using assms
proof (induction xs arbitrary: ys)
  case Nil
  then show ?case by (simp add: highestLevelQuiz_def)
next
  case (Cons x xs)
  have "highestLevelQuiz (hd (filter (hasHighestNextLevel ys) ys)) (x # xs) =
          highestLevelQuiz (hd (filter (hasHighestNextLevel (ys @ [x])) (ys @ [x]))) xs"
    by (simp only: highestLevelQuiz_def foldl_Cons highest_snoc [OF Cons.prems])
  also have "\<dots> = hd (filter (hasHighestNextLevel ((ys @ [x]) @ xs)) ((ys @ [x]) @ xs))"
    by (rule Cons.IH) simp
  finally show ?case by simp
qed

lemma highestLevelQuiz_first:
  "highestLevelQuiz first (first # rest) =
     hd (filter (hasHighestNextLevel (first # rest)) (first # rest))"
proof -
  have one: "hd (filter (hasHighestNextLevel [first]) [first]) = first"
    by (simp add: hasHighestNextLevel_def)
  have "highestLevelQuiz first (first # rest) = highestLevelQuiz first rest"
    by (simp add: highestLevelQuiz_def)
  also have "\<dots> = hd (filter (hasHighestNextLevel ([first] @ rest)) ([first] @ rest))"
    using foldl_highest [of "[first]" rest] unfolding one by simp
  finally show ?thesis by simp
qed

lemma completed_iff:
  "(quiz_nextLevel (highestLevelQuiz first (first # rest)) \<ge> 8 \<and>
    quiz_score (highestLevelQuiz first (first # rest)) \<ge> 80)
   = subtopicCompleted (first # rest)"
proof -
  have "filter (hasHighestNextLevel (first # rest)) (first # rest) \<noteq> []"
    by (rule highest_exists) simp
  then obtain a as where "filter (hasHighestNextLevel (first # rest)) (first # rest) = a # as"
    by (cases "filter (hasHighestNextLevel (first # rest)) (first # rest)") auto
  then show ?thesis
    unfolding highestLevelQuiz_first subtopicCompleted_def by simp
qed


lemma subtopicStep_counts:
  assumes "subtopicStep sq (t, ps) st = (t', ps')"
  shows "totalSubtopics t' = totalSubtopics t +
           length (filter (\<lambda>g. g \<noteq> []) [filter (\<lambda>quiz. subtopicName quiz = subtopic_name st) sq])"
    and "completedSubtopics t' = completedSubtopics t +
           length (filter subtopicCompleted
             (filter (\<lambda>g. g \<noteq> []) [filter (\<lambda>quiz. subtopicName quiz = subtopic_name st) sq]))"
proof -
  let ?g = "filter (\<lambda>quiz. subtopicName quiz = subtopic_name st) sq"
  show "totalSubtopics t' = totalSubtopics t + length (filter (\<lambda>g. g \<noteq> []) [?g])"
  proof (cases ?g)
    case Nil
    with assms show ?thesis by (simp add: subtopicStep_def)
  next
    case (Cons first rest)
    with assms show ?thesis by (auto simp: subtopicStep_def Let_def)
  qed
  show "completedSubtopics t' = completedSubtopics t +
           length (filter subtopicCompleted (filter (\<lambda>g. g \<noteq> []) [?g]))"
  proof (cases ?g)
    case Nil
    with assms show ?thesis by (simp add: subtopicStep_def)
  next
    case (Cons first rest)
    from assms have "completedSubtopics t' =
        (if quiz_nextLevel (highestLevelQuiz first (first # rest)) \<ge> 8 \<and>
            quiz_score (highestLevelQuiz first (first # rest)) \<ge> 80
         then completedSubtopics t + 1 else completedSubtopics t)"
      unfolding subtopicStep_def Let_def Cons by auto
    then show ?thesis unfolding completed_iff Cons by simp
  qed
qed

lemma subtopics_fold_counts:
  assumes "foldl (subtopicStep sq) (t, ps) sts = (t', ps')"
  shows "totalSubtopics t' = totalSubtopics t +
           length (filter (\<lambda>g. g \<noteq> [])
             (map (\<lambda>st. filter (\<lambda>quiz. subtopicName quiz = subtopic_name st) sq) sts))
         \<and> completedSubtopics t' = completedSubtopics t +
           length (filter subtopicCompleted (filter (\<lambda>g. g \<noteq> [])
             (map (\<lambda>st. filter (\<lambda>quiz. subtopicName quiz = subtopic_name st) sq) sts)))"
  using assms
proof (induction sts arbitrary: t ps)
  case Nil
  then show ?case by simp
next
  case (Cons st sts)
  obtain t1 ps1 where one: "subtopicStep sq (t, ps) st = (t1, ps1)"
    by (cases "subtopicStep sq (t, ps) st") auto
  with Cons.prems have "foldl (subtopicStep sq) (t1, ps1) sts = (t', ps')" by simp
  from Cons.IH [OF this] subtopicStep_counts [OF one] show ?case by simp
qed

lemma subjectStep_counts:
  "totalSubtopics (subjectStep quizHistory t subject) = totalSubtopics t +
     length (filter (\<lambda>g. g \<noteq> []) (attemptsBySubtopic [subject] quizHistory))
   \<and> completedSubtopics (subjectStep quizHistory t subject) = completedSubtopics t +
     length (filter subtopicCompleted
       (filter (\<lambda>g. g \<noteq> []) (attemptsBySubtopic [subject] quizHistory)))"
proof -
  let ?sq = "filter (\<lambda>quiz. subjectName quiz = subject_name subject) quizHistory"
  have groups: "attemptsBySubtopic [subject] quizHistory =
      map (\<lambda>st. filter (\<lambda>quiz. subtopicName quiz = subtopic_name st) ?sq) (subtopics subject)"
    by (simp add: attemptsBySubtopic_def conj_commute)
  show ?thesis
  proof (cases "?sq = []")
    case True
    then have "filter (\<lambda>g. g \<noteq> []) (attemptsBySubtopic [subject] quizHistory) = []"
      unfolding groups by (simp add: filter_empty_conv)
    with True show ?thesis by (simp add: subjectStep_def)
  next
    case False
    obtain t1 ps1 where f: "foldl (subtopicStep ?sq) (t, []) (subtopics subject) = (t1, ps1)"
      by (cases "foldl (subtopicStep ?sq) (t, []) (subtopics subject)") auto
    with False have "subjectStep quizHistory t subject =
        t1\<lparr>totalPerformanceScore := totalPerformanceScore t1 + foldl (+) 0 ps1,
            totalQuizzes := totalQuizzes t1 + length ps1\<rparr>"
      by (simp add: subjectStep_def Let_def)
    with subtopics_fold_counts [OF f] show ?thesis unfolding groups by simp
  qed
qed

lemma attemptsBySubtopic_Cons:
  "attemptsBySubtopic (subject # subjects) quizHistory =
     attemptsBySubtopic [subject] quizHistory @ attemptsBySubtopic subjects quizHistory"
  by (simp add: attemptsBySubtopic_def)

lemma subjects_fold_counts:
  "totalSubtopics (foldl (subjectStep quizHistory) t subjects) = totalSubtopics t +
     length (attemptedSubtopics subjects quizHistory)
   \<and> completedSubtopics (foldl (subjectStep quizHistory) t subjects) = completedSubtopics t +
     length (filter subtopicCompleted (attemptedSubtopics subjects quizHistory))"
proof (induction subjects arbitrary: t)
  case Nil
  then show ?case by (simp add: attemptedSubtopics_def attemptsBySubtopic_def)
next
  case (Cons subject subjects)
  from Cons.IH [of "subjectStep quizHistory t subject"] subjectStep_counts [of quizHistory t subject]
  show ?case
    unfolding attemptedSubtopics_def attemptsBySubtopic_Cons [of subject subjects] by simp
qed

lemma aggregate_counts:
  "totalSubtopics (aggregate subjects quizHistory) =
     length (attemptedSubtopics subjects quizHistory)"
  "completedSubtopics (aggregate subjects quizHistory) =
     length (filter subtopicCompleted (attemptedSubtopics subjects quizHistory))"
  using subjects_fold_counts [of quizHistory _ subjects] by (simp_all add: aggregate_def)

section \<open>The performance score transform and the averaged pool\<close>













section \<open>Rounding to doubles\<close>

lemma bitLength_bounds:
  "n > 0 \<Longrightarrow> 2 ^ (bitLength n - 1) \<le> n \<and> n < 2 ^ bitLength n"
proof (induction n rule: bitLength.induct)
  case (1 n)
  show ?case
  proof (cases "n div 2 = 0")
    case True
    with "1.prems" have "n = 1" by simp
    then show ?thesis by (simp add: bitLength.simps [of "Suc 0"] bitLength.simps [of 0])
  next
    case False
    with "1.IH" "1.prems" have ih: "2 ^ (bitLength (n div 2) - 1) \<le> n div 2"
      "n div 2 < 2 ^ bitLength (n div 2)"
      by simp_all
    from False have pos: "bitLength (n div 2) > 0"
      by (simp add: bitLength.simps [of "n div 2"])
    have b: "bitLength n = Suc (bitLength (n div 2))"
      using "1.prems" by (simp add: bitLength.simps [of n])
    from pos obtain k where k: "bitLength (n div 2) = Suc k" by (cases "bitLength (n div 2)") auto
    from ih k have "2 * 2 ^ k \<le> 2 * (n div 2)" by simp
    then have lo: "2 ^ Suc k \<le> n" by simp
    from ih(2) have "n div 2 + 1 \<le> 2 ^ bitLength (n div 2)" by simp
    then have "2 * (n div 2) + 2 \<le> 2 * 2 ^ bitLength (n div 2)" by simp
    then have hi: "n < 2 ^ Suc (bitLength (n div 2))" by simp
    from lo hi b k show ?thesis by simp
  qed
qed

lemma bitLength_bounds_real:
  assumes "n > 0"
  shows "(2::real) ^ (bitLength n - 1) \<le> real n" and "real n + 1 \<le> 2 ^ bitLength n"
    and "bitLength n > 0"
proof -
  from bitLength_bounds [OF assms] have lo: "2 ^ (bitLength n - 1) \<le> n"
    and hi: "Suc n \<le> 2 ^ bitLength n" by simp_all
  from lo have "real (2 ^ (bitLength n - 1)) \<le> real n" by (rule of_nat_mono)
  then show "(2::real) ^ (bitLength n - 1) \<le> real n" by simp
  from hi have "real (Suc n) \<le> real (2 ^ bitLength n)" by (rule of_nat_mono)
  then show "real n + 1 \<le> 2 ^ bitLength n" by simp
  from assms hi show "bitLength n > 0" by (cases "bitLength n") simp_all
qed

lemma exponentOf_ge1:
  assumes "x \<ge> 1"
  shows "pow2 (exponentOf x) \<le> x \<and> x < pow2 (exponentOf x + 1)"
proof -
  let ?n = "nat \<lfloor>x\<rfloor>"
  from assms have "\<lfloor>x\<rfloor> \<ge> 1" by simp
  then have n: "?n > 0" by simp
  note b = bitLength_bounds_real [OF n]
  from assms have e: "exponentOf x = int (bitLength ?n) - 1" by (simp add: exponentOf_def)
  have rn: "real ?n = of_int \<lfloor>x\<rfloor>" using \<open>\<lfloor>x\<rfloor> \<ge> 1\<close> by simp
  have "of_int \<lfloor>x\<rfloor> \<le> x" by simp
  with b(1) rn have l: "(2::real) ^ (bitLength ?n - 1) \<le> x" by linarith
  have "x < of_int \<lfloor>x\<rfloor> + 1" by linarith
  with b(2) rn have h: "x < (2::real) ^ bitLength ?n" by linarith
  from b(3) have p1: "pow2 (int (bitLength ?n) - 1) = 2 ^ (bitLength ?n - 1)"
    by (simp add: pow2_def nat_diff_distrib)
  have p2: "pow2 (int (bitLength ?n) - 1 + 1) = 2 ^ bitLength ?n"
    by (simp add: pow2_def)
  from l h show ?thesis unfolding e p1 p2 by simp
qed

lemma exponentOf_lt1:
  assumes "0 < x" and "x < 1"
  shows "pow2 (exponentOf x) \<le> x \<and> x < pow2 (exponentOf x + 1)"
proof -
  let ?m = "\<lceil>1 / x\<rceil>"
  let ?n = "nat (?m - 1)"
  let ?k = "bitLength ?n"
  from assms have inv: "1 < 1 / x" by simp
  then have m2: "?m \<ge> 2" by linarith
  then have n: "?n > 0" by simp
  note b = bitLength_bounds_real [OF n]
  from assms have e: "exponentOf x = - int ?k" by (simp add: exponentOf_def)
  from m2 have "0 \<le> ?m - 1" by linarith
  then have "real ?n = of_int (?m - 1)" by (rule of_nat_nat)
  then have rn: "real ?n = of_int ?m - 1" by simp
  have up: "1 / x \<le> of_int ?m" by simp
  have dn: "of_int ?m - 1 < 1 / x" by linarith
  from b(2) rn up have "1 / x \<le> 2 ^ ?k" by linarith
  with assms(1) have "1 \<le> x * 2 ^ ?k" by (simp add: field_simps)
  then have l: "1 / 2 ^ ?k \<le> x" by (simp add: field_simps)
  from b(1) rn dn have "(2::real) ^ (?k - 1) < 1 / x" by linarith
  with assms(1) have "x * 2 ^ (?k - 1) < 1" by (simp add: field_simps)
  then have h: "x < 1 / 2 ^ (?k - 1)" by (simp add: field_simps)
  from b(3) have p1: "pow2 (- int ?k) = 1 / 2 ^ ?k"
    by (simp add: pow2_def)
  have p2: "pow2 (- int ?k + 1) = 1 / 2 ^ (?k - 1)"
  proof (cases "?k = 1")
    case True
    then show ?thesis by (simp add: pow2_def)
  next
    case False
    with b(3) have "\<not> 0 \<le> - int ?k + 1" and "nat (- (- int ?k + 1)) = ?k - 1" by simp_all
    then show ?thesis by (simp add: pow2_def)
  qed
  from l h show ?thesis unfolding e p1 p2 by simp
qed

text \<open>
  \<^verbatim>\<open>exponentOf\<close> brackets a positive number between two powers of two, and \<^verbatim>\<open>toDouble\<close>
  returns a multiple of the unit in the last place that is at most half a unit away.
\<close>

lemma exponentOf_bounds:
  "x > 0 \<Longrightarrow> pow2 (exponentOf x) \<le> x \<and> x < pow2 (exponentOf x + 1)"
  using exponentOf_ge1 [of x] exponentOf_lt1 [of x] by (cases "x \<ge> 1") simp_all

lemma pow2_pos: "pow2 k > 0"
  by (simp add: pow2_def)

lemma roundHalfEven_near: "\<bar>of_int (roundHalfEven y) - y\<bar> \<le> 1 / 2"
  unfolding roundHalfEven_def Let_def by (simp; linarith)

lemma toDouble_nearest:
  assumes "x > 0"
  shows "\<bar>toDouble x - x\<bar> \<le> pow2 (exponentOf x - 52) / 2"
proof -
  let ?u = "pow2 (exponentOf x - 52)"
  have u: "?u > 0" by (rule pow2_pos)
  from assms have t: "toDouble x = ?u * of_int (roundHalfEven (x / ?u))"
    by (simp add: toDouble_def Let_def)
  have "\<bar>of_int (roundHalfEven (x / ?u)) - x / ?u\<bar> \<le> 1 / 2" by (rule roundHalfEven_near)
  then have "?u * \<bar>of_int (roundHalfEven (x / ?u)) - x / ?u\<bar> \<le> ?u * (1 / 2)"
    using u by (intro mult_left_mono) simp_all
  moreover have "?u * \<bar>of_int (roundHalfEven (x / ?u)) - x / ?u\<bar> =
      \<bar>?u * of_int (roundHalfEven (x / ?u)) - x\<bar>"
  proof -
    have "?u * of_int (roundHalfEven (x / ?u)) - x =
        ?u * (of_int (roundHalfEven (x / ?u)) - x / ?u)"
      using u by (simp add: right_diff_distrib)
    then show ?thesis using u by (simp only: abs_mult abs_of_pos)
  qed
  ultimately show ?thesis unfolding t by simp
qed

section \<open>The overall completion percentage\<close>

lemma bitLength_examples: "bitLength (Suc 0) = Suc 0" "bitLength 57 = 6"
  by code_simp+

lemma toDouble_pos:
  "x > 0 \<Longrightarrow> exponentOf x = e \<Longrightarrow>
   toDouble x = pow2 (e - 52) * of_int (roundHalfEven (x / pow2 (e - 52)))"
  by (simp add: toDouble_def Let_def)

lemma toDouble_quotient: "toDouble (23 / 40) = 5179139571476070 / 2 ^ 53"
proof -
  have "exponentOf (23 / 40) = - 1"
    by (simp add: exponentOf_def bitLength_examples)
  from toDouble_pos [OF _ this] show ?thesis
    by (simp add: pow2_def roundHalfEven_def Let_def)
qed

lemma toDouble_product:
  "toDouble (5179139571476070 / 2 ^ 53 * 100) = 8092405580431359 / 2 ^ 47"
proof -
  have "exponentOf (5179139571476070 / 2 ^ 53 * 100) = 5"
    by (simp add: exponentOf_def bitLength_examples)
  from toDouble_pos [OF _ this] show ?thesis
    by (simp add: pow2_def roundHalfEven_def Let_def)
qed

lemma percentage_23_of_40:
  "mathRound (toDouble (toDouble (23 / 40) * 100)) = 57"
  unfolding toDouble_quotient toDouble_product by (simp add: mathRound_def)

lemma forty_attempted: "length (attemptedSubtopics fortySubjects fortyHistory) = 40"
  by code_simp

lemma forty_completed:
  "length (filter subtopicCompleted (attemptedSubtopics fortySubjects fortyHistory)) = 23"
  by code_simp

text \<open>
  Claim C6 does not hold of the code. With 23 of 40 attempted subtopics completed the
  quotient 23/40 and its product with 100 are rounded to doubles, the product is
  57.49999999999999, and the component shows 57; the rounded value of 100 * 23 / 40,
  which is 57.5, is 58.
\<close>

theorem completion_percentage_rounding:
  "totalSubtopics (aggregate fortySubjects fortyHistory) = 40
   \<and> completedSubtopics (aggregate fortySubjects fortyHistory) = 23
   \<and> overallPercentage fortySubjects fortyHistory = 57
   \<and> completionPercentage fortySubjects fortyHistory = 58"
proof -
  have t: "totalSubtopics (aggregate fortySubjects fortyHistory) = 40"
    and c: "completedSubtopics (aggregate fortySubjects fortyHistory) = 23"
    by (simp_all add: aggregate_counts forty_attempted forty_completed)
  have o: "overallPercentage fortySubjects fortyHistory = 57"
    unfolding overallPercentage_def Let_def t c by (simp add: percentage_23_of_40)
  have ne: "attemptedSubtopics fortySubjects fortyHistory \<noteq> []"
    using forty_attempted by auto
  have s: "completionPercentage fortySubjects fortyHistory = 58"
    unfolding completionPercentage_def Let_def forty_attempted forty_completed
    using ne by (simp add: round_def)
  from t c o s show ?thesis by simp
qed

section \<open>Chat: authorisation\<close>

lemma activeAssignment_None: "activeAssignment db a b = None \<longleftrightarrow> \<not> linked db a b"
  by (auto simp: activeAssignment_def linked_def find_None_iff)

text \<open>
  Claim C7, as the code has it. A history fetch answers 200 and a send answers 201 only
  when an active assignment links the two users, in either direction. Without one, the
  history fetch and a send that carries content are answered 403 with the collections
  unchanged; no send without an active assignment persists a message or is answered 404.
\<close>

theorem chat_requires_assignment:
  "(fst (snd (getChatHistory now db currentUserId uid)) = 200 \<longrightarrow> linked db currentUserId uid)
   \<and> (fst (snd (sendMessage now db currentUserId uid body_content body_attachment)) = 201
        \<longrightarrow> linked db currentUserId uid)
   \<and> (\<not> linked db currentUserId uid \<longrightarrow>
        getChatHistory now db currentUserId uid =
          (db, (403, Failure ''Not authorized to chat with this user'')))
   \<and> (\<not> linked db currentUserId uid \<and> truthy body_content \<longrightarrow>
        sendMessage now db currentUserId uid body_content body_attachment =
          (db, (403, Failure ''Not authorized to chat with this user'')))
   \<and> (\<not> linked db currentUserId uid \<longrightarrow>
        fst (sendMessage now db currentUserId uid body_content body_attachment) = db
        \<and> fst (snd (sendMessage now db currentUserId uid body_content body_attachment)) \<noteq> 404)"
proof -
  have g: "fst (snd (getChatHistory now db currentUserId uid)) = 200 \<longrightarrow> linked db currentUserId uid"
    using activeAssignment_None [of db currentUserId uid]
    by (cases "activeAssignment db currentUserId uid") (simp_all add: getChatHistory_def)
  have p: "fst (snd (sendMessage now db currentUserId uid body_content body_attachment)) = 201
        \<longrightarrow> linked db currentUserId uid"
    using activeAssignment_None [of db currentUserId uid]
    by (cases "activeAssignment db currentUserId uid")
      (simp_all add: sendMessage_def Let_def split: if_splits)
  have n: "activeAssignment db currentUserId uid = None" if "\<not> linked db currentUserId uid"
    using that by (simp add: activeAssignment_None)
  have g403: "\<not> linked db currentUserId uid \<longrightarrow>
        getChatHistory now db currentUserId uid =
          (db, (403, Failure ''Not authorized to chat with this user''))"
    using n by (simp add: getChatHistory_def)
  have p403: "\<not> linked db currentUserId uid \<and> truthy body_content \<longrightarrow>
        sendMessage now db currentUserId uid body_content body_attachment =
          (db, (403, Failure ''Not authorized to chat with this user''))"
    using n by (simp add: sendMessage_def)
  have pr: "\<not> linked db currentUserId uid \<longrightarrow>
        fst (sendMessage now db currentUserId uid body_content body_attachment) = db
        \<and> fst (snd (sendMessage now db currentUserId uid body_content body_attachment)) \<noteq> 404"
    using n by (simp add: sendMessage_def)
  from g p g403 p403 pr show ?thesis by blast
qed

theorem chat_requires_assignment_witness:
  "linked exampleChat 8 7 \<and> \<not> linked exampleChat 7 9
   \<and> fst (snd (getChatHistory 20 exampleChat 8 7)) = 200
   \<and> fst (snd (sendMessage 20 exampleChat 8 7 (Some ''thanks'') None)) = 201
   \<and> getChatHistory 20 exampleChat 7 9 =
        (exampleChat, (403, Failure ''Not authorized to chat with this user''))
   \<and> sendMessage 20 exampleChat 7 9 (Some ''hello'') None =
        (exampleChat, (403, Failure ''Not authorized to chat with this user''))"
proof -
  have l: "linked exampleChat 8 7" and nl: "\<not> linked exampleChat 7 9"
    by (simp_all add: linked_def exampleChat_def)
  have t: "truthy (Some ''hello'')" by (simp add: truthy_def)
  have a: "activeAssignment exampleChat 8 7 = Some \<lparr>therapistId = 7, userId = 8, status = Active\<rparr>"
    by (simp add: activeAssignment_def exampleChat_def)
  have g: "fst (snd (getChatHistory 20 exampleChat 8 7)) = 200"
    by (simp add: getChatHistory_def a Let_def)
  have tr: "trim ''thanks'' = ''thanks''" by (simp add: trim_def isSpace_def)
  have p: "fst (snd (sendMessage 20 exampleChat 8 7 (Some ''thanks'') None)) = 201"
    by (simp add: sendMessage_def a Let_def truthy_def param_def tr)
  from chat_requires_assignment [of 20 exampleChat 7 9 "Some ''hello''" None]
    chat_requires_assignment [of 20 exampleChat 8 7 "Some ''thanks''" None] l nl t g p
  show ?thesis by simp
qed

text \<open>
  Claim C7 as stated (every rejection for a missing assignment is a 403) fails for a
  send without content: the route checks the content first and answers 400.
\<close>

theorem send_without_content_counterexample:
  "\<not> linked \<lparr>assignments = [], messages = []\<rparr> 7 8
   \<and> sendMessage 20 \<lparr>assignments = [], messages = []\<rparr> 7 8 (Some '''') None =
       (\<lparr>assignments = [], messages = []\<rparr>, (400, Failure ''Message content is required''))
   \<and> sendMessage 20 \<lparr>assignments = [], messages = []\<rparr> 7 8 None None =
       (\<lparr>assignments = [], messages = []\<rparr>, (400, Failure ''Message content is required''))"
  by (simp add: linked_def sendMessage_def truthy_def)

section \<open>Chat: marking messages read\<close>

lemma getChatHistory_linked:
  assumes "linked db viewer peer"
  shows "fst (getChatHistory now db viewer peer) =
     db\<lparr>messages := map (\<lambda>m. if unreadFrom peer viewer m
                               then m\<lparr>read := True, updatedAt := now\<rparr> else m) (messages db)\<rparr>"
proof -
  from assms obtain a where "activeAssignment db viewer peer = Some a"
    using activeAssignment_None [of db viewer peer] by (cases "activeAssignment db viewer peer") auto
  then show ?thesis by (simp add: getChatHistory_def Let_def unreadFrom_def)
qed

lemma marked_not_unread:
  "\<not> unreadFrom peer viewer (if unreadFrom peer viewer m then m\<lparr>read := True, updatedAt := now\<rparr> else m)"
  by (simp add: unreadFrom_def)

text \<open>
  Claim C8, as the code has it. A history fetch between a viewer and a linked peer sets
  the read flag, and with it the write timestamp \<^verbatim>\<open>updatedAt\<close>, on exactly the messages
  from the peer to the viewer that were unread; every other message is left as it was,
  and sender, receiver, content, attachment and creation time of every message are
  unchanged. A second fetch changes nothing.
\<close>

theorem history_marks_read:
  assumes "linked db viewer peer"
  shows "assignments (fst (getChatHistory now db viewer peer)) = assignments db
   \<and> length (messages (fst (getChatHistory now db viewer peer))) = length (messages db)
   \<and> (\<forall>i < length (messages db).
        (unreadFrom peer viewer (messages db ! i) \<longrightarrow>
           messages (fst (getChatHistory now db viewer peer)) ! i =
             (messages db ! i)\<lparr>read := True, updatedAt := now\<rparr>)
        \<and> (\<not> unreadFrom peer viewer (messages db ! i) \<longrightarrow>
           messages (fst (getChatHistory now db viewer peer)) ! i = messages db ! i)
        \<and> senderId (messages (fst (getChatHistory now db viewer peer)) ! i) = senderId (messages db ! i)
        \<and> receiverId (messages (fst (getChatHistory now db viewer peer)) ! i) = receiverId (messages db ! i)
        \<and> content (messages (fst (getChatHistory now db viewer peer)) ! i) = content (messages db ! i)
        \<and> attachment (messages (fst (getChatHistory now db viewer peer)) ! i) = attachment (messages db ! i)
        \<and> createdAt (messages (fst (getChatHistory now db viewer peer)) ! i) = createdAt (messages db ! i))
   \<and> fst (getChatHistory later (fst (getChatHistory now db viewer peer)) viewer peer) =
        fst (getChatHistory now db viewer peer)"
proof -
  let ?db' = "fst (getChatHistory now db viewer peer)"
  note eq = getChatHistory_linked [OF assms, of now]
  have a: "assignments ?db' = assignments db" and l: "length (messages ?db') = length (messages db)"
    by (simp_all add: eq)
  have m: "\<forall>i < length (messages db).
        (unreadFrom peer viewer (messages db ! i) \<longrightarrow>
           messages ?db' ! i = (messages db ! i)\<lparr>read := True, updatedAt := now\<rparr>)
        \<and> (\<not> unreadFrom peer viewer (messages db ! i) \<longrightarrow> messages ?db' ! i = messages db ! i)
        \<and> senderId (messages ?db' ! i) = senderId (messages db ! i)
        \<and> receiverId (messages ?db' ! i) = receiverId (messages db ! i)
        \<and> content (messages ?db' ! i) = content (messages db ! i)
        \<and> attachment (messages ?db' ! i) = attachment (messages db ! i)
        \<and> createdAt (messages ?db' ! i) = createdAt (messages db ! i)"
    by (simp add: eq)
  have "linked ?db' viewer peer" using assms by (simp add: linked_def a)
  then have "fst (getChatHistory later ?db' viewer peer) =
      ?db'\<lparr>messages := map (\<lambda>m. if unreadFrom peer viewer m
                               then m\<lparr>read := True, updatedAt := later\<rparr> else m) (messages ?db')\<rparr>"
    by (rule getChatHistory_linked)
  also have "map (\<lambda>m. if unreadFrom peer viewer m
                               then m\<lparr>read := True, updatedAt := later\<rparr> else m) (messages ?db')
      = messages ?db'"
    unfolding eq by (simp add: marked_not_unread o_def)
  finally have r: "fst (getChatHistory later ?db' viewer peer) = ?db'" by simp
  from a l m r show ?thesis by blast
qed

theorem history_marks_read_witness:
  "linked exampleChat 8 7
   \<and> messages (fst (getChatHistory 20 exampleChat 8 7)) =
       [\<lparr>senderId = 7, receiverId = 8, content = ''hello'', read = True,
          attachment = None, createdAt = 10, updatedAt = 20\<rparr>,
        \<lparr>senderId = 8, receiverId = 7, content = ''hi'', read = False,
          attachment = None, createdAt = 11, updatedAt = 11\<rparr>]
   \<and> fst (getChatHistory 30 (fst (getChatHistory 20 exampleChat 8 7)) 8 7) =
        fst (getChatHistory 20 exampleChat 8 7)"
proof -
  have l: "linked exampleChat 8 7"
    by (simp add: linked_def exampleChat_def)
  have a: "activeAssignment exampleChat 8 7 = Some \<lparr>therapistId = 7, userId = 8, status = Active\<rparr>"
    by (simp add: activeAssignment_def exampleChat_def)
  have m: "messages (fst (getChatHistory 20 exampleChat 8 7)) =
       [\<lparr>senderId = 7, receiverId = 8, content = ''hello'', read = True,
          attachment = None, createdAt = 10, updatedAt = 20\<rparr>,
        \<lparr>senderId = 8, receiverId = 7, content = ''hi'', read = False,
          attachment = None, createdAt = 11, updatedAt = 11\<rparr>]"
    unfolding getChatHistory_def a by (simp add: Let_def exampleChat_def)
  from history_marks_read [OF l, of 20 30] l m show ?thesis by simp
qed

text \<open>
  Claim C8 as stated (only the read flag changes) fails: the fetch also sets the write
  timestamp of a message it marks.
\<close>

theorem history_changes_updatedAt_counterexample:
  "updatedAt (messages exampleChat ! 0) = 10
   \<and> updatedAt (messages (fst (getChatHistory 20 exampleChat 8 7)) ! 0) = 20"
proof -
  have a: "activeAssignment exampleChat 8 7 = Some \<lparr>therapistId = 7, userId = 8, status = Active\<rparr>"
    by (simp add: activeAssignment_def exampleChat_def)
  show ?thesis
    unfolding getChatHistory_def a by (simp add: Let_def exampleChat_def)
qed

section \<open>Saving a quiz in progress twice\<close>

lemma updateFirst_length: "length (updateFirst Q f xs) = length xs"
  by (induction xs) simp_all

lemma updateFirst_filter_same:
  "(\<And>x. P (f x) = P x) \<Longrightarrow> length (filter P (updateFirst Q f xs)) = length (filter P xs)"
  by (induction xs) simp_all

lemma updateFirst_filter_le:
  "(\<And>x. P (f x) \<Longrightarrow> P x) \<Longrightarrow> length (filter P (updateFirst Q f xs)) \<le> length (filter P xs)"
  by (induction xs) auto

lemma updateFirst_single:
  assumes "length (filter Q xs) \<le> 1" and "\<And>x. Q (f x) = Q x"
  shows "filter Q (updateFirst Q f xs) = map f (filter Q xs)"
  using assms(1)
proof (induction xs)
  case Nil
  show ?case by simp
next
  case (Cons x xs)
  show ?case
  proof (cases "Q x")
    case True
    with Cons.prems have "filter Q xs = []" by simp
    with True assms(2) show ?thesis by simp
  next
    case False
    with Cons show ?thesis by simp
  qed
qed

lemma find_None_filter: "find P xs = None \<longleftrightarrow> filter P xs = []"
  by (auto simp: find_None_iff filter_empty_conv)

lemma save_accepted:
  assumes "lvl \<noteq> 0"
  shows "saveQuizInProgress now uid (saveBody subjectId subtopicId lvl) db =
     (if filter (inProgressFor uid subjectId subtopicId) db = []
      then db @ [\<lparr>qip_userId = uid, qip_subjectId = subjectId, qip_subtopicId = subtopicId,
                   qip_level = lvl, attempted = False, lastUpdated = now\<rparr>]
      else updateFirst (inProgressFor uid subjectId subtopicId)
             (\<lambda>d. d\<lparr>qip_level := lvl, lastUpdated := now\<rparr>) db, 200)"
  using assms find_None_filter [of "inProgressFor uid subjectId subtopicId" db]
  by (cases "find (inProgressFor uid subjectId subtopicId) db")
    (simp_all add: saveQuizInProgress_def saveBody_def)

lemma save_preserves:
  assumes "atMostOneInProgress db"
  shows "atMostOneInProgress (fst (saveQuizInProgress now uid body db))"
proof (cases "\<exists>s t l. body = saveBody s t l \<and> l \<noteq> 0")
  case False
  then have "fst (saveQuizInProgress now uid body db) = db"
    by (cases body) (auto simp: saveQuizInProgress_def saveBody_def split: option.splits)
  with assms show ?thesis by simp
next
  case True
  then obtain s t l where body: "body = saveBody s t l" and l: "l \<noteq> 0" by blast
  show ?thesis
  proof (cases "filter (inProgressFor uid s t) db = []")
    case True
    have "length (filter (inProgressFor u' s' t')
            (db @ [\<lparr>qip_userId = uid, qip_subjectId = s, qip_subtopicId = t,
                   qip_level = l, attempted = False, lastUpdated = now\<rparr>])) \<le> 1" for u' s' t'
    proof (cases "u' = uid \<and> s' = s \<and> t' = t")
      case True
      with \<open>filter (inProgressFor uid s t) db = []\<close> show ?thesis by simp
    next
      case False
      then have "\<not> inProgressFor u' s' t' \<lparr>qip_userId = uid, qip_subjectId = s, qip_subtopicId = t,
                   qip_level = l, attempted = False, lastUpdated = now\<rparr>"
        by (auto simp: inProgressFor_def)
      with assms show ?thesis by (simp add: atMostOneInProgress_def)
    qed
    with True show ?thesis
      unfolding body save_accepted [OF l] atMostOneInProgress_def by simp
  next
    case False
    have "length (filter (inProgressFor u' s' t')
            (updateFirst (inProgressFor uid s t) (\<lambda>d. d\<lparr>qip_level := l, lastUpdated := now\<rparr>) db))
          = length (filter (inProgressFor u' s' t') db)" for u' s' t'
      by (rule updateFirst_filter_same) (simp add: inProgressFor_def)
    with False assms show ?thesis
      unfolding body save_accepted [OF l] atMostOneInProgress_def by simp
  qed
qed

lemma complete_preserves:
  assumes "atMostOneInProgress db"
  shows "atMostOneInProgress (completeQuizInProgress now uid subjectId subtopicId lvl db)"
proof (cases "find (inProgressFor uid subjectId subtopicId) db")
  case None
  with assms show ?thesis
    by (simp add: completeQuizInProgress_def atMostOneInProgress_def inProgressFor_def)
next
  case (Some d)
  have "length (filter (inProgressFor u' s' t')
          (updateFirst (inProgressFor uid subjectId subtopicId)
             (\<lambda>d. d\<lparr>attempted := True, lastUpdated := now\<rparr>) db))
        \<le> length (filter (inProgressFor u' s' t') db)" for u' s' t'
    by (rule updateFirst_filter_le) (simp add: inProgressFor_def)
  with assms have "length (filter (inProgressFor u' s' t')
          (updateFirst (inProgressFor uid subjectId subtopicId)
             (\<lambda>d. d\<lparr>attempted := True, lastUpdated := now\<rparr>) db)) \<le> 1" for u' s' t'
    unfolding atMostOneInProgress_def using le_trans by blast
  with Some show ?thesis
    by (simp add: completeQuizInProgress_def atMostOneInProgress_def)
qed

lemma reachable_atMostOne: "reachable db \<Longrightarrow> atMostOneInProgress db"
proof (induction rule: reachable.induct)
  case empty
  show ?case by (simp add: atMostOneInProgress_def)
next
  case (save db now uid body)
  then show ?case by (simp add: save_preserves)
next
  case (complete db now uid subjectId subtopicId lvl)
  then show ?case by (simp add: complete_preserves)
qed

lemma save_result:
  assumes "atMostOneInProgress db" and "lvl \<noteq> 0"
  shows "\<exists>d. filter (inProgressFor uid subjectId subtopicId)
               (fst (saveQuizInProgress now uid (saveBody subjectId subtopicId lvl) db)) = [d]
             \<and> qip_level d = lvl \<and> attempted d = False"
proof (cases "filter (inProgressFor uid subjectId subtopicId) db = []")
  case True
  then show ?thesis
    unfolding save_accepted [OF assms(2)] by (simp add: inProgressFor_def)
next
  case False
  from assms(1) have le: "length (filter (inProgressFor uid subjectId subtopicId) db) \<le> 1"
    by (simp add: atMostOneInProgress_def)
  with False obtain d0 where d0: "filter (inProgressFor uid subjectId subtopicId) db = [d0]"
    by (cases "filter (inProgressFor uid subjectId subtopicId) db") auto
  then have "d0 \<in> set (filter (inProgressFor uid subjectId subtopicId) db)" by simp
  then have "attempted d0 = False" by (simp add: inProgressFor_def)
  moreover have "filter (inProgressFor uid subjectId subtopicId)
     (updateFirst (inProgressFor uid subjectId subtopicId)
        (\<lambda>d. d\<lparr>qip_level := lvl, lastUpdated := now\<rparr>) db)
     = map (\<lambda>d. d\<lparr>qip_level := lvl, lastUpdated := now\<rparr>)
         (filter (inProgressFor uid subjectId subtopicId) db)"
    using le by (rule updateFirst_single) (simp add: inProgressFor_def)
  ultimately show ?thesis
    unfolding save_accepted [OF assms(2)] using False d0 by simp
qed

text \<open>
  Claim C9. In any collection the routes can produce, saving the same subject, subtopic
  and level (a level from 1 to 10) twice in a row for one user succeeds both times and
  leaves exactly one in-progress document for that user, subject and subtopic; it holds
  the given level, and the second save adds no document.
\<close>

theorem save_twice_one_record:
  fixes lvl :: int
  assumes "reachable db" and "1 \<le> lvl" and "lvl \<le> 10"
  shows "snd (saveQuizInProgress now uid (saveBody subjectId subtopicId lvl) db) = 200
   \<and> snd (saveQuizInProgress later uid (saveBody subjectId subtopicId lvl)
            (fst (saveQuizInProgress now uid (saveBody subjectId subtopicId lvl) db))) = 200
   \<and> (\<exists>d. filter (inProgressFor uid subjectId subtopicId)
             (fst (saveQuizInProgress later uid (saveBody subjectId subtopicId lvl)
                (fst (saveQuizInProgress now uid (saveBody subjectId subtopicId lvl) db)))) = [d]
           \<and> qip_level d = lvl \<and> attempted d = False)
   \<and> length (fst (saveQuizInProgress later uid (saveBody subjectId subtopicId lvl)
                (fst (saveQuizInProgress now uid (saveBody subjectId subtopicId lvl) db))))
       = length (fst (saveQuizInProgress now uid (saveBody subjectId subtopicId lvl) db))"
proof -
  let ?db1 = "fst (saveQuizInProgress now uid (saveBody subjectId subtopicId lvl) db)"
  from assms(2) have l: "lvl \<noteq> 0" by simp
  from assms(1) have inv: "atMostOneInProgress db" by (rule reachable_atMostOne)
  then have inv1: "atMostOneInProgress ?db1" by (rule save_preserves)
  from save_result [OF inv l, of uid subjectId subtopicId now]
  have ne: "filter (inProgressFor uid subjectId subtopicId) ?db1 \<noteq> []" by auto
  have len: "length (fst (saveQuizInProgress later uid (saveBody subjectId subtopicId lvl) ?db1))
      = length ?db1"
    unfolding save_accepted [OF l, of later] using ne by (simp add: updateFirst_length)
  have c1: "snd (saveQuizInProgress now uid (saveBody subjectId subtopicId lvl) db) = 200"
    and c2: "snd (saveQuizInProgress later uid (saveBody subjectId subtopicId lvl) ?db1) = 200"
    by (simp_all add: save_accepted [OF l])
  from c1 c2 save_result [OF inv1 l, of uid subjectId subtopicId later] len
  show ?thesis by simp
qed

theorem save_twice_one_record_witness:
  "reachable [] \<and> (1::int) \<le> 5 \<and> (5::int) \<le> 10
   \<and> fst (saveQuizInProgress 30 7 (saveBody 3 4 5) (fst (saveQuizInProgress 20 7 (saveBody 3 4 5) []))) =
       [\<lparr>qip_userId = 7, qip_subjectId = 3, qip_subtopicId = 4, qip_level = 5,
         attempted = False, lastUpdated = 30\<rparr>]
   \<and> length (fst (saveQuizInProgress 20 7 (saveBody 3 4 5) [])) = 1"
proof -
  have one: "fst (saveQuizInProgress 20 7 (saveBody 3 4 5) []) =
       [\<lparr>qip_userId = 7, qip_subjectId = 3, qip_subtopicId = 4, qip_level = 5,
         attempted = False, lastUpdated = 20\<rparr>]"
    by (simp add: saveQuizInProgress_def saveBody_def)
  have two: "fst (saveQuizInProgress 30 7 (saveBody 3 4 5)
       [\<lparr>qip_userId = 7, qip_subjectId = 3, qip_subtopicId = 4, qip_level = 5,
         attempted = False, lastUpdated = 20\<rparr>]) =
       [\<lparr>qip_userId = 7, qip_subjectId = 3, qip_subtopicId = 4, qip_level = 5,
         attempted = False, lastUpdated = 30\<rparr>]"
    by (simp add: saveQuizInProgress_def saveBody_def inProgressFor_def)
  from save_twice_one_record [OF reachable.empty, of 5 20 7 3 4 30] one two reachable.empty
  show ?thesis by simp
qed

end
